theory Spec2Isabelle
  imports Main "HOL-Library.AList" "HOL-Library.Sublist"
begin

section \<open>Python values and the primitives the controller applies to them\<close>

text \<open>
  The controller of \<^verbatim>\<open>mytoyota/controller.py\<close> works on the values that
  \<^verbatim>\<open>resp.json()\<close> returns. A Python dict keeps its keys in insertion order and holds
  each key once, so an object is an association list; \<^verbatim>\<open>None\<close> is \<open>JNull\<close>.
  JSON numbers with a fraction (Python floats) are outside the model.
\<close>

datatype json =
    JNull
  | JBool bool
  | JInt int
  | JStr string
  | JArr "json list"
  | JObj "(string \<times> json) list"

text \<open>
  Every \<^verbatim>\<open>raise\<close> of the source and every exception of an operator it applies is a
  value. \<open>LibraryError\<close> carries the name of an exception raised inside httpx, the
  JSON decoder, PyJWT or urllib.
\<close>

datatype error =
    ToyotaLoginError string
  | ToyotaInternalError string
  | ToyotaApiError string
  | KeyError string
  | IndexError
  | TypeError
  | OverflowError
  | LibraryError string

text \<open>Truth value of an object, as \<^verbatim>\<open>if x\<close> and \<^verbatim>\<open>x or y\<close> test it.\<close>

fun truthy :: "json \<Rightarrow> bool" where
  "truthy JNull = False"
| "truthy (JBool b) = b"
| "truthy (JInt i) = (i \<noteq> 0)"
| "truthy (JStr s) = (s \<noteq> [])"
| "truthy (JArr xs) = (xs \<noteq> [])"
| "truthy (JObj kvs) = (kvs \<noteq> [])"

text \<open>
  \<^verbatim>\<open>key in x\<close> for a string key: a key of a dict, an element of a list, a substring
  of a string; any other operand raises TypeError.
\<close>

fun py_in :: "string \<Rightarrow> json \<Rightarrow> error + bool" where
  "py_in k (JObj kvs) = Inr (k \<in> set (map fst kvs))"
| "py_in k (JArr xs) = Inr (JStr k \<in> set xs)"
| "py_in k (JStr s) = Inr (sublist k s)"
| "py_in k JNull = Inl TypeError"
| "py_in k (JBool b) = Inl TypeError"
| "py_in k (JInt i) = Inl TypeError"

text \<open>\<^verbatim>\<open>x[key]\<close> for a string key.\<close>

fun py_getitem :: "json \<Rightarrow> string \<Rightarrow> error + json" where
  "py_getitem (JObj kvs) k = (case map_of kvs k of None \<Rightarrow> Inl (KeyError k) | Some v \<Rightarrow> Inr v)"
| "py_getitem JNull k = Inl TypeError"
| "py_getitem (JBool b) k = Inl TypeError"
| "py_getitem (JInt i) k = Inl TypeError"
| "py_getitem (JStr s) k = Inl TypeError"
| "py_getitem (JArr xs) k = Inl TypeError"

text \<open>
  \<^verbatim>\<open>x[0]\<close>. A dict decoded from JSON has string keys only, so the integer key 0 is
  never present.
\<close>

fun py_index0 :: "json \<Rightarrow> error + json" where
  "py_index0 (JArr []) = Inl IndexError"
| "py_index0 (JArr (x # xs)) = Inr x"
| "py_index0 (JStr []) = Inl IndexError"
| "py_index0 (JStr (c # cs)) = Inr (JStr [c])"
| "py_index0 (JObj kvs) = Inl (KeyError ''0'')"
| "py_index0 JNull = Inl TypeError"
| "py_index0 (JBool b) = Inl TypeError"
| "py_index0 (JInt i) = Inl TypeError"

text \<open>
  \<^verbatim>\<open>x[key] = v\<close> for a string key, returning the object after the assignment: an
  existing key keeps its place, a new key goes last.
\<close>

fun py_setitem :: "json \<Rightarrow> string \<Rightarrow> json \<Rightarrow> error + json" where
  "py_setitem (JObj kvs) k v = Inr (JObj (AList.update k v kvs))"
| "py_setitem JNull k v = Inl TypeError"
| "py_setitem (JBool b) k v = Inl TypeError"
| "py_setitem (JInt i) k v = Inl TypeError"
| "py_setitem (JStr s) k v = Inl TypeError"
| "py_setitem (JArr xs) k v = Inl TypeError"

text \<open>The elements \<^verbatim>\<open>for cb in x\<close> visits: a dict yields its keys, a string its characters.\<close>

fun py_iter :: "json \<Rightarrow> error + json list" where
  "py_iter (JArr xs) = Inr xs"
| "py_iter (JStr s) = Inr (map (\<lambda>c. JStr [c]) s)"
| "py_iter (JObj kvs) = Inr (map (\<lambda>kv. JStr (fst kv)) kvs)"
| "py_iter JNull = Inl TypeError"
| "py_iter (JBool b) = Inl TypeError"
| "py_iter (JInt i) = Inl TypeError"

text \<open>\<^verbatim>\<open>d.update(new)\<close>: the entries of \<open>new\<close> are stored in their order.\<close>

definition dict_update :: "(string \<times> json) list \<Rightarrow> (string \<times> json) list \<Rightarrow> (string \<times> json) list" where
  "dict_update d new = fold (\<lambda>kv. AList.update (fst kv) (snd kv)) new d"

text \<open>Decimal text of an integer, as an f-string formats it.\<close>

fun str_nat :: "nat \<Rightarrow> string" where
  "str_nat n =
     (if n < 10 then [''0123456789'' ! n]
      else str_nat (n div 10) @ [''0123456789'' ! (n mod 10)])"

declare str_nat.simps [simp del]

definition str_int :: "int \<Rightarrow> string" where
  "str_int i = (if i < 0 then CHR ''-'' # str_nat (nat (- i)) else str_nat (nat i))"

section \<open>Filling the callback prompts (lines 52 to 57)\<close>

text \<open>
  The condition \<^verbatim>\<open>cb["type"] == "NameCallback" and cb["output"][0]["value"] == "User Name"\<close>:
  the right operand is evaluated only when the left one holds.
\<close>

definition is_username_prompt :: "json \<Rightarrow> error + bool" where
  "is_username_prompt cb =
     (case py_getitem cb ''type'' of
        Inl e \<Rightarrow> Inl e
      | Inr t \<Rightarrow>
          if t = JStr ''NameCallback'' then
            (case py_getitem cb ''output'' of
               Inl e \<Rightarrow> Inl e
             | Inr out \<Rightarrow>
                 (case py_index0 out of
                    Inl e \<Rightarrow> Inl e
                  | Inr o0 \<Rightarrow>
                      (case py_getitem o0 ''value'' of
                         Inl e \<Rightarrow> Inl e
                       | Inr v \<Rightarrow> Inr (v = JStr ''User Name''))))
          else Inr False)"

text \<open>
  The list object after its first element has been replaced. The source mutates the
  element in place; the decoded JSON is a tree, so no other reference sees it.
\<close>

fun store_first :: "json \<Rightarrow> json \<Rightarrow> json" where
  "store_first (JArr (x # xs)) y = JArr (y # xs)"
| "store_first j y = j"

fun store_key :: "json \<Rightarrow> string \<Rightarrow> json \<Rightarrow> json" where
  "store_key (JObj kvs) k v = JObj (AList.update k v kvs)"
| "store_key j k v = j"

text \<open>\<^verbatim>\<open>cb["input"][0]["value"] = v\<close>, returning the prompt after the assignment.\<close>

definition set_input_value :: "json \<Rightarrow> json \<Rightarrow> error + json" where
  "set_input_value cb v =
     (case py_getitem cb ''input'' of
        Inl e \<Rightarrow> Inl e
      | Inr inp \<Rightarrow>
          (case py_index0 inp of
             Inl e \<Rightarrow> Inl e
           | Inr slot \<Rightarrow>
               (case py_setitem slot ''value'' v of
                  Inl e \<Rightarrow> Inl e
                | Inr slot' \<Rightarrow> Inr (store_key cb ''input'' (store_first inp slot')))))"

text \<open>One pass of the body of \<^verbatim>\<open>for cb in data["callbacks"]\<close>.\<close>

definition fill_callback :: "string \<Rightarrow> string \<Rightarrow> json \<Rightarrow> error + json" where
  "fill_callback user pass cb =
     (case is_username_prompt cb of
        Inl e \<Rightarrow> Inl e
      | Inr True \<Rightarrow> set_input_value cb (JStr user)
      | Inr False \<Rightarrow>
          (case py_getitem cb ''type'' of
             Inl e \<Rightarrow> Inl e
           | Inr t \<Rightarrow>
               if t = JStr ''PasswordCallback'' then set_input_value cb (JStr pass)
               else Inr cb))"

fun fill_all :: "string \<Rightarrow> string \<Rightarrow> json list \<Rightarrow> error + json list" where
  "fill_all user pass [] = Inr []"
| "fill_all user pass (cb # cbs) =
     (case fill_callback user pass cb of
        Inl e \<Rightarrow> Inl e
      | Inr cb' \<Rightarrow>
          (case fill_all user pass cbs of
             Inl e \<Rightarrow> Inl e
           | Inr cbs' \<Rightarrow> Inr (cb' # cbs')))"

text \<open>
  Lines 52 to 57 on the challenge state \<open>data\<close>, returning the state that is posted.
  Only the elements of a list can be prompts that are modified; the keys of a dict and
  the characters of a string raise at \<^verbatim>\<open>cb["type"]\<close>.
\<close>

definition fill_callbacks :: "string \<Rightarrow> string \<Rightarrow> json \<Rightarrow> error + json" where
  "fill_callbacks user pass data =
     (case py_in ''callbacks'' data of
        Inl e \<Rightarrow> Inl e
      | Inr False \<Rightarrow> Inr data
      | Inr True \<Rightarrow>
          (case py_getitem data ''callbacks'' of
             Inl e \<Rightarrow> Inl e
           | Inr cbs \<Rightarrow>
               (case py_iter cbs of
                  Inl e \<Rightarrow> Inl e
                | Inr items \<Rightarrow>
                    (case fill_all user pass items of
                       Inl e \<Rightarrow> Inl e
                     | Inr items' \<Rightarrow>
                         (case cbs of
                            JArr xs \<Rightarrow> Inr (store_key data ''callbacks'' (JArr items'))
                          | _ \<Rightarrow> Inr data)))))"

section \<open>The world outside the controller\<close>

text \<open>
  What the code reads of an \<^verbatim>\<open>httpx.Response\<close>: \<^verbatim>\<open>status_code\<close>, \<^verbatim>\<open>text\<close> (here \<open>resp_text\<close>),
  the result of \<^verbatim>\<open>json()\<close> (\<open>Inl\<close> the exception the decoder raises) and
  \<^verbatim>\<open>headers.get("location")\<close>.
\<close>

record response =
  status_code :: int
  resp_text :: string
  json_body :: "string + json"
  location :: "string option"

text \<open>
  A call handed to the HTTP client: \<^verbatim>\<open>client.post\<close>, \<^verbatim>\<open>client.get\<close> and
  \<^verbatim>\<open>client.request\<close> with their keyword arguments. \<open>rq_timeout\<close> is \<open>None\<close> for a
  client built without a timeout.
\<close>

record request =
  rq_method :: string
  rq_url :: string
  rq_headers :: "(string \<times> json) list"
  rq_json :: json
  rq_data :: "(string \<times> json) list"
  rq_params :: json
  rq_follow_redirects :: bool
  rq_timeout :: "int option"

text \<open>
  The surroundings the code calls but does not contain. \<open>responses k\<close> is what the
  HTTP client does with the call number \<open>k\<close> (a response, or \<open>Inl\<close> the exception it
  raises); \<open>clock k\<close> is what \<^verbatim>\<open>datetime.now()\<close> returns at its call number \<open>k\<close>, in
  microseconds since 0001-01-01; \<open>jwt_decode\<close> is \<^verbatim>\<open>jwt.decode\<close> with signature
  verification switched off; \<open>parse_qs_location\<close> is
  \<^verbatim>\<open>parse.parse_qs(httpx.URL(location).query.decode())\<close>; \<open>py_repr\<close> is the text Python
  prints for a list or a dict. The four URLs are the constants of
  \<^verbatim>\<open>mytoyota.const\<close>.
\<close>

record env =
  responses :: "nat \<Rightarrow> string + response"
  clock :: "nat \<Rightarrow> int"
  jwt_decode :: "json \<Rightarrow> string + json"
  parse_qs_location :: "string option \<Rightarrow> string + (string \<times> string list) list"
  py_repr :: "json \<Rightarrow> string"
  API_BASE_URL :: string
  ACCESS_TOKEN_URL :: string
  AUTHENTICATE_URL :: string
  AUTHORIZE_URL :: string

text \<open>The text an f-string substitutes for a value.\<close>

fun py_str :: "env \<Rightarrow> json \<Rightarrow> string" where
  "py_str E JNull = ''None''"
| "py_str E (JBool b) = (if b then ''True'' else ''False'')"
| "py_str E (JInt i) = str_int i"
| "py_str E (JStr s) = s"
| "py_str E (JArr xs) = py_repr E (JArr xs)"
| "py_str E (JObj kvs) = py_repr E (JObj kvs)"

section \<open>The controller\<close>

record controller =
  username :: string
  password :: string
  token :: json
  token_expiration :: "int option"
  refresh_token :: json
  uuid :: json
  timeout :: int
  api_base_url :: string
  access_token_url :: string
  authenticate_url :: string
  authorize_url :: string

text \<open>\<^verbatim>\<open>Controller.__init__\<close> (lines 21 to 32); the caller passes 30 for the default timeout.\<close>

definition Controller_init :: "env \<Rightarrow> string \<Rightarrow> string \<Rightarrow> int \<Rightarrow> controller" where
  "Controller_init E user pass tmo =
     \<lparr> username = user, password = pass, token = JNull, token_expiration = None,
       refresh_token = JNull, uuid = JNull, timeout = tmo,
       api_base_url = API_BASE_URL E, access_token_url = ACCESS_TOKEN_URL E,
       authenticate_url = AUTHENTICATE_URL E, authorize_url = AUTHORIZE_URL E \<rparr>"

text \<open>
  Everything a call can change: the controller object, the calls handed to the HTTP
  client so far, the number of clock readings so far, and the dict objects of the
  caller, by address.
\<close>

record world =
  self :: controller
  sent :: "request list"
  ticks :: nat
  heap :: "nat \<Rightarrow> (string \<times> json) list"

definition send :: "env \<Rightarrow> request \<Rightarrow> world \<Rightarrow> (error + response) \<times> world" where
  "send E rq w =
     ((case responses E (length (sent w)) of
         Inl x \<Rightarrow> Inl (LibraryError x)
       | Inr r \<Rightarrow> Inr r),
      w\<lparr>sent := sent w @ [rq]\<rparr>)"

definition now :: "env \<Rightarrow> world \<Rightarrow> int \<times> world" where
  "now E w = (clock E (ticks w), w\<lparr>ticks := Suc (ticks w)\<rparr>)"

text \<open>
  \<^verbatim>\<open>timedelta(seconds=v)\<close> in microseconds: an int or a bool is accepted, the number of
  days is bounded by 999999999. \<^verbatim>\<open>datetime + timedelta\<close> must stay within the years
  1 to 9999, which are 3652059 days.
\<close>

definition timedelta_seconds :: "json \<Rightarrow> error + int" where
  "timedelta_seconds v =
     (case v of
        JInt n \<Rightarrow>
          if - 999999999 \<le> n div 86400 \<and> n div 86400 \<le> 999999999 then Inr (n * 1000000)
          else Inl OverflowError
      | JBool b \<Rightarrow> Inr (if b then 1000000 else 0)
      | _ \<Rightarrow> Inl TypeError)"

definition datetime_add :: "int \<Rightarrow> int \<Rightarrow> error + int" where
  "datetime_add t d =
     (if 0 \<le> t + d \<and> t + d < 3652059 * 86400 * 1000000 then Inr (t + d)
      else Inl OverflowError)"

subsection \<open>\<^verbatim>\<open>_update_token\<close> (lines 38 to 113)\<close>

definition standard_headers :: "(string \<times> json) list" where
  "standard_headers =
     [(''accept-api-version'', JStr ''resource=2.1, protocol=1.0''),
      (''x-brand'', JStr ''T''),
      (''user-agent'', JStr ''okhttp/4.10.0'')]"

definition authenticate_request :: "controller \<Rightarrow> json \<Rightarrow> request" where
  "authenticate_request c data =
     \<lparr> rq_method = ''POST'', rq_url = authenticate_url c, rq_headers = standard_headers,
       rq_json = data, rq_data = [], rq_params = JNull, rq_follow_redirects = False,
       rq_timeout = None \<rparr>"

text \<open>
  The loop of lines 51 to 65; the second argument counts the rounds \<^verbatim>\<open>range(10)\<close> has
  left. It returns \<open>data\<close> as the loop leaves it, after a \<^verbatim>\<open>break\<close> or at exhaustion.
\<close>

fun challenge_loop :: "env \<Rightarrow> nat \<Rightarrow> json \<Rightarrow> world \<Rightarrow> (error + json) \<times> world" where
  "challenge_loop E 0 data w = (Inr data, w)"
| "challenge_loop E (Suc n) data w =
     (case fill_callbacks (username (self w)) (password (self w)) data of
        Inl e \<Rightarrow> (Inl e, w)
      | Inr data1 \<Rightarrow>
          (case send E (authenticate_request (self w) data1) w of
             (Inl e, w1) \<Rightarrow> (Inl e, w1)
           | (Inr resp, w1) \<Rightarrow>
               if status_code resp \<noteq> 200 then
                 (Inl (ToyotaLoginError (''Authentication Failed. '' @ str_int (status_code resp)
                        @ '', '' @ resp_text resp @ ''.'')), w1)
               else
                 (case json_body resp of
                    Inl x \<Rightarrow> (Inl (LibraryError x), w1)
                  | Inr data2 \<Rightarrow>
                      (case py_in ''tokenId'' data2 of
                         Inl e \<Rightarrow> (Inl e, w1)
                       | Inr True \<Rightarrow> (Inr data2, w1)
                       | Inr False \<Rightarrow> challenge_loop E n data2 w1))))"

definition authorize_request :: "env \<Rightarrow> controller \<Rightarrow> json \<Rightarrow> request" where
  "authorize_request E c token_id =
     \<lparr> rq_method = ''GET'', rq_url = authorize_url c,
       rq_headers = [(''cookie'', JStr (''iPlanetDirectoryPro='' @ py_str E token_id))],
       rq_json = JNull, rq_data = [], rq_params = JNull, rq_follow_redirects = False,
       rq_timeout = None \<rparr>"

text \<open>Lines 70 to 78: the authorization request and the code of its redirect.\<close>

definition authorise :: "env \<Rightarrow> json \<Rightarrow> world \<Rightarrow> (error + string list) \<times> world" where
  "authorise E data w =
     (case py_getitem data ''tokenId'' of
        Inl e \<Rightarrow> (Inl e, w)
      | Inr token_id \<Rightarrow>
          (case send E (authorize_request E (self w) token_id) w of
             (Inl e, w1) \<Rightarrow> (Inl e, w1)
           | (Inr resp, w1) \<Rightarrow>
               if status_code resp \<noteq> 302 then
                 (Inl (ToyotaLoginError (''Authorization failed. '' @ str_int (status_code resp)
                        @ '', '' @ resp_text resp @ ''.'')), w1)
               else
                 (case parse_qs_location E (location resp) of
                    Inl x \<Rightarrow> (Inl (LibraryError x), w1)
                  | Inr query \<Rightarrow>
                      (case map_of query ''code'' of
                         None \<Rightarrow> (Inl (KeyError ''code''), w1)
                       | Some authentication_code \<Rightarrow> (Inr authentication_code, w1)))))"

definition token_request :: "controller \<Rightarrow> string list \<Rightarrow> request" where
  "token_request c authentication_code =
     \<lparr> rq_method = ''POST'', rq_url = access_token_url c,
       rq_headers = [(''authorization'', JStr ''basic b25lYXBwOm9uZWFwcA=='')],
       rq_json = JNull,
       rq_data =
         [(''client_id'', JStr ''oneapp''),
          (''code'', JArr (map JStr authentication_code)),
          (''redirect_uri'', JStr ''com.toyota.oneapp:/oauth2Callback''),
          (''grant_type'', JStr ''authorization_code''),
          (''code_verifier'', JStr ''plain'')],
       rq_params = JNull, rq_follow_redirects = False, rq_timeout = None \<rparr>"

text \<open>The condition of lines 97 to 102, a chain of \<^verbatim>\<open>or\<close> evaluated from the left.\<close>

definition tokens_missing :: "json \<Rightarrow> error + bool" where
  "tokens_missing access_tokens =
     (case py_in ''access_token'' access_tokens of
        Inl e \<Rightarrow> Inl e
      | Inr False \<Rightarrow> Inr True
      | Inr True \<Rightarrow>
          (case py_in ''id_token'' access_tokens of
             Inl e \<Rightarrow> Inl e
           | Inr False \<Rightarrow> Inr True
           | Inr True \<Rightarrow>
               (case py_in ''refresh_token'' access_tokens of
                  Inl e \<Rightarrow> Inl e
                | Inr False \<Rightarrow> Inr True
                | Inr True \<Rightarrow>
                    (case py_in ''expires_in'' access_tokens of
                       Inl e \<Rightarrow> Inl e
                     | Inr False \<Rightarrow> Inr True
                     | Inr True \<Rightarrow> Inr False))))"

text \<open>
  Lines 105 to 113, one assignment after the other: an exception of a later line leaves
  the earlier assignments in place.
\<close>

definition store_tokens :: "env \<Rightarrow> json \<Rightarrow> world \<Rightarrow> (error + unit) \<times> world" where
  "store_tokens E access_tokens w =
     (case py_getitem access_tokens ''access_token'' of
        Inl e \<Rightarrow> (Inl e, w)
      | Inr tok \<Rightarrow>
          let w1 = w\<lparr>self := (self w)\<lparr>token := tok\<rparr>\<rparr> in
          (case py_getitem access_tokens ''refresh_token'' of
             Inl e \<Rightarrow> (Inl e, w1)
           | Inr rtok \<Rightarrow>
               let w2 = w1\<lparr>self := (self w1)\<lparr>refresh_token := rtok\<rparr>\<rparr> in
               (case py_getitem access_tokens ''id_token'' of
                  Inl e \<Rightarrow> (Inl e, w2)
                | Inr id_token \<Rightarrow>
                    (case jwt_decode E id_token of
                       Inl x \<Rightarrow> (Inl (LibraryError x), w2)
                     | Inr claims \<Rightarrow>
                         (case py_getitem claims ''uuid'' of
                            Inl e \<Rightarrow> (Inl e, w2)
                          | Inr u \<Rightarrow>
                              let w3 = w2\<lparr>self := (self w2)\<lparr>uuid := u\<rparr>\<rparr> in
                              (case now E w3 of
                                 (t, w4) \<Rightarrow>
                                   (case py_getitem access_tokens ''expires_in'' of
                                      Inl e \<Rightarrow> (Inl e, w4)
                                    | Inr expires_in \<Rightarrow>
                                        (case timedelta_seconds expires_in of
                                           Inl e \<Rightarrow> (Inl e, w4)
                                         | Inr d \<Rightarrow>
                                             (case datetime_add t d of
                                                Inl e \<Rightarrow> (Inl e, w4)
                                              | Inr expiry \<Rightarrow>
                                                  (Inr (),
                                                   w4\<lparr>self := (self w4)\<lparr>token_expiration := Some expiry\<rparr>\<rparr>))))))))))"

text \<open>Lines 80 to 113: the token request, the check of its answer, the assignments.\<close>

definition retrieve_tokens :: "env \<Rightarrow> string list \<Rightarrow> world \<Rightarrow> (error + unit) \<times> world" where
  "retrieve_tokens E authentication_code w =
     (case send E (token_request (self w) authentication_code) w of
        (Inl e, w1) \<Rightarrow> (Inl e, w1)
      | (Inr resp, w1) \<Rightarrow>
          if status_code resp \<noteq> 200 then
            (Inl (ToyotaLoginError (''Token retrieval failed. '' @ str_int (status_code resp)
                   @ '', '' @ resp_text resp @ ''.'')), w1)
          else
            (case json_body resp of
               Inl x \<Rightarrow> (Inl (LibraryError x), w1)
             | Inr access_tokens \<Rightarrow>
                 (case tokens_missing access_tokens of
                    Inl e \<Rightarrow> (Inl e, w1)
                  | Inr True \<Rightarrow>
                      (Inl (ToyotaLoginError (''Token retrieval failed. Missing Tokens. ''
                             @ str_int (status_code resp) @ '', '' @ resp_text resp @ ''.'')), w1)
                  | Inr False \<Rightarrow> store_tokens E access_tokens w1)))"

definition update_token :: "env \<Rightarrow> world \<Rightarrow> (error + unit) \<times> world" where
  "update_token E w =
     (case challenge_loop E 10 (JObj []) w of
        (Inl e, w1) \<Rightarrow> (Inl e, w1)
      | (Inr data, w1) \<Rightarrow>
          (case py_in ''tokenId'' data of
             Inl e \<Rightarrow> (Inl e, w1)
           | Inr False \<Rightarrow> (Inl (ToyotaLoginError ''Authentication Failed. Unknown method.''), w1)
           | Inr True \<Rightarrow>
               (case authorise E data w1 of
                  (Inl e, w2) \<Rightarrow> (Inl e, w2)
                | (Inr authentication_code, w2) \<Rightarrow> retrieve_tokens E authentication_code w2)))"

text \<open>\<^verbatim>\<open>login\<close> (lines 34 to 36).\<close>

definition login :: "env \<Rightarrow> world \<Rightarrow> (error + unit) \<times> world" where
  "login E w = update_token E w"

subsection \<open>\<^verbatim>\<open>_is_token_valid\<close> (lines 115 to 120)\<close>

definition is_token_valid :: "env \<Rightarrow> world \<Rightarrow> bool \<times> world" where
  "is_token_valid E w =
     (if truthy (token (self w)) \<or> token_expiration (self w) = None then (False, w)
      else (case now E w of (t, w1) \<Rightarrow> (the (token_expiration (self w)) > t, w1)))"

subsection \<open>\<^verbatim>\<open>request_raw\<close> and \<^verbatim>\<open>request_json\<close> (lines 122 to 205)\<close>

definition session_headers :: "env \<Rightarrow> controller \<Rightarrow> (string \<times> json) list" where
  "session_headers E c =
     [(''x-api-key'', JStr ''tTZipv6liF74PwMfk9Ed68AQ0bISswwf3iHQdqcF''),
      (''x-guid'', uuid c),
      (''guid'', uuid c),
      (''authorization'', JStr (''Bearer '' @ py_str E (token c))),
      (''x-channel'', JStr ''ONEAPP''),
      (''x-brand'', JStr ''T''),
      (''user-agent'', JStr ''okhttp/4.10.0'')]"

text \<open>
  Lines 138 to 153 on the value of the headers dict: the dict of the caller, or a new
  empty one when the caller passed \<^verbatim>\<open>None\<close>.
\<close>

definition merge_headers :: "env \<Rightarrow> controller \<Rightarrow> string option \<Rightarrow> (string \<times> json) list \<Rightarrow> (string \<times> json) list" where
  "merge_headers E c vin h =
     (let h1 = dict_update h (session_headers E c)
      in case vin of None \<Rightarrow> h1 | Some v \<Rightarrow> dict_update h1 [(''vin'', JStr v)])"

definition api_request :: "controller \<Rightarrow> string \<Rightarrow> string \<Rightarrow> (string \<times> json) list \<Rightarrow> json \<Rightarrow> json \<Rightarrow> request" where
  "api_request c method endpoint h body params =
     \<lparr> rq_method = method, rq_url = api_base_url c @ endpoint, rq_headers = h,
       rq_json = body, rq_data = [], rq_params = params, rq_follow_redirects = True,
       rq_timeout = Some (timeout c) \<rparr>"

text \<open>
  \<open>headers\<close> is the address of the caller's dict, or \<open>None\<close>. \<^verbatim>\<open>headers.update\<close> writes
  to the object at that address; a dict the function creates itself is local to it.
\<close>

text \<open>Lines 135 and 136: \<^verbatim>\<open>if not self._is_token_valid(): await self._update_token()\<close>.\<close>

definition ensure_session :: "env \<Rightarrow> world \<Rightarrow> (error + unit) \<times> world" where
  "ensure_session E w =
     (case is_token_valid E w of
        (valid, w0) \<Rightarrow> if \<not> valid then update_token E w0 else (Inr (), w0))"

definition request_raw ::
  "env \<Rightarrow> string \<Rightarrow> string \<Rightarrow> string option \<Rightarrow> json \<Rightarrow> json \<Rightarrow> nat option \<Rightarrow> world
     \<Rightarrow> (error + response) \<times> world" where
  "request_raw E method endpoint vin body params headers w =
     (if method \<notin> set [''GET'', ''POST'', ''PUT'', ''DELETE''] then
        (Inl (ToyotaInternalError ''Invalid request method provided''), w)
      else
        (case ensure_session E w of
           (Inl e, w1) \<Rightarrow> (Inl e, w1)
         | (Inr u, w1) \<Rightarrow>
             let h = merge_headers E (self w1) vin
                       (case headers of None \<Rightarrow> [] | Some a \<Rightarrow> heap w1 a);
                 w2 = (case headers of None \<Rightarrow> w1
                       | Some a \<Rightarrow> w1\<lparr>heap := (heap w1)(a := h)\<rparr>)
             in (case send E (api_request (self w2) method endpoint h body params) w2 of
                   (Inl e, w3) \<Rightarrow> (Inl e, w3)
                 | (Inr resp, w3) \<Rightarrow>
                     if status_code resp \<in> set [200, 202] then (Inr resp, w3)
                     else
                       (Inl (ToyotaApiError (''Request Failed.  '' @ str_int (status_code resp)
                              @ '', '' @ resp_text resp @ ''.'')), w3))))"

definition request_json ::
  "env \<Rightarrow> string \<Rightarrow> string \<Rightarrow> string option \<Rightarrow> json \<Rightarrow> json \<Rightarrow> nat option \<Rightarrow> world
     \<Rightarrow> (error + json) \<times> world" where
  "request_json E method endpoint vin body params headers w =
     (case request_raw E method endpoint vin body params headers w of
        (Inl e, w1) \<Rightarrow> (Inl e, w1)
      | (Inr resp, w1) \<Rightarrow>
          (case json_body resp of
             Inl x \<Rightarrow> (Inl (LibraryError x), w1)
           | Inr v \<Rightarrow> (Inr v, w1)))"

section \<open>The properties, as predicates\<close>



text \<open>
  The answer to the HTTP call number \<open>k\<close> lets the challenge loop go on: status 200, a
  JSON body without \<^verbatim>\<open>tokenId\<close>, and callback prompts the next round can fill.
\<close>

definition round_continues :: "env \<Rightarrow> controller \<Rightarrow> nat \<Rightarrow> bool" where
  "round_continues E c k =
     (case responses E k of
        Inl x \<Rightarrow> False
      | Inr r \<Rightarrow>
          status_code r = 200 \<and>
          (case json_body r of
             Inl x \<Rightarrow> False
           | Inr d \<Rightarrow>
               py_in ''tokenId'' d = Inr False \<and>
               (case fill_callbacks (username c) (password c) d of
                  Inl e \<Rightarrow> False
                | Inr d' \<Rightarrow> True)))"

text \<open>The answer to the HTTP call number \<open>k\<close> is a 200 whose JSON body \<open>d\<close> contains \<^verbatim>\<open>tokenId\<close>.\<close>

definition answers_token_id :: "env \<Rightarrow> nat \<Rightarrow> json \<Rightarrow> bool" where
  "answers_token_id E k d =
     (case responses E k of
        Inl x \<Rightarrow> False
      | Inr r \<Rightarrow> status_code r = 200 \<and> json_body r = Inr d \<and> py_in ''tokenId'' d = Inr True)"



text \<open>
  The shape of a callback prompt, read off the JSON and not off the code: \<open>first_slot\<close>
  is the first entry of the list under a key when that entry is an object,
  \<open>slot_value\<close> its \<^verbatim>\<open>value\<close>.
\<close>

definition first_slot :: "json \<Rightarrow> string \<Rightarrow> (string \<times> json) list option" where
  "first_slot cb k =
     (case cb of
        JObj kvs \<Rightarrow>
          (case map_of kvs k of
             Some (JArr (JObj slot # rest)) \<Rightarrow> Some slot
           | _ \<Rightarrow> None)
      | _ \<Rightarrow> None)"

definition slot_value :: "json \<Rightarrow> string \<Rightarrow> json option" where
  "slot_value cb k = (case first_slot cb k of None \<Rightarrow> None | Some slot \<Rightarrow> map_of slot ''value'')"

definition prompt_type :: "json \<Rightarrow> json option" where
  "prompt_type cb = (case cb of JObj kvs \<Rightarrow> map_of kvs ''type'' | _ \<Rightarrow> None)"

definition declares_username :: "json \<Rightarrow> bool" where
  "declares_username cb =
     (prompt_type cb = Some (JStr ''NameCallback'')
      \<and> slot_value cb ''output'' = Some (JStr ''User Name''))"

definition is_password_prompt :: "json \<Rightarrow> bool" where
  "is_password_prompt cb = (prompt_type cb = Some (JStr ''PasswordCallback''))"

text \<open>
  A well-formed prompt is an object with a type tag; a name prompt declares its purpose
  in the value of its first output entry; a prompt that is to be filled (a name prompt
  whose purpose is the username, a password prompt) has an input slot.
\<close>

definition wf_prompt :: "json \<Rightarrow> bool" where
  "wf_prompt cb =
     (prompt_type cb \<noteq> None
      \<and> (prompt_type cb = Some (JStr ''NameCallback'') \<longrightarrow> slot_value cb ''output'' \<noteq> None)
      \<and> (declares_username cb \<or> is_password_prompt cb \<longrightarrow> first_slot cb ''input'' \<noteq> None))"

text \<open>The exceptions of subscripting: \<^verbatim>\<open>KeyError\<close>, \<^verbatim>\<open>IndexError\<close>, \<^verbatim>\<open>TypeError\<close>.\<close>

fun is_lookup_error :: "error \<Rightarrow> bool" where
  "is_lookup_error (KeyError k) = True"
| "is_lookup_error IndexError = True"
| "is_lookup_error TypeError = True"
| "is_lookup_error e = False"

text \<open>
  The specification of section 4.1 in its own words: the prompt whose declared purpose is
  the username gets the username in its input slot, a password prompt gets the password,
  any other prompt stays as it is.
\<close>

definition with_input_value :: "json \<Rightarrow> json \<Rightarrow> json" where
  "with_input_value cb v =
     (case cb of
        JObj kvs \<Rightarrow>
          (case map_of kvs ''input'' of
             Some (JArr (JObj slot # rest)) \<Rightarrow>
               JObj (AList.update ''input'' (JArr (JObj (AList.update ''value'' v slot) # rest)) kvs)
           | _ \<Rightarrow> cb)
      | _ \<Rightarrow> cb)"

definition answer_prompt :: "string \<Rightarrow> string \<Rightarrow> json \<Rightarrow> json" where
  "answer_prompt user pass cb =
     (if declares_username cb then with_input_value cb (JStr user)
      else if is_password_prompt cb then with_input_value cb (JStr pass)
      else cb)"

section \<open>Concrete runs\<close>

definition name_prompt :: json where
  "name_prompt =
     JObj [(''type'', JStr ''NameCallback''),
           (''output'', JArr [JObj [(''name'', JStr ''prompt''), (''value'', JStr ''User Name'')]]),
           (''input'', JArr [JObj [(''name'', JStr ''IDToken1''), (''value'', JStr [])]])]"

definition password_prompt :: json where
  "password_prompt =
     JObj [(''type'', JStr ''PasswordCallback''),
           (''output'', JArr [JObj [(''name'', JStr ''prompt''), (''value'', JStr ''Password'')]]),
           (''input'', JArr [JObj [(''name'', JStr ''IDToken2''), (''value'', JStr [])]])]"

definition text_prompt :: json where
  "text_prompt =
     JObj [(''type'', JStr ''TextOutputCallback''),
           (''output'', JArr [JObj [(''name'', JStr ''message''), (''value'', JStr ''Welcome'')]])]"

definition ok_json :: "json \<Rightarrow> string + response" where
  "ok_json d = Inr \<lparr> status_code = 200, resp_text = ''(json)'', json_body = Inr d, location = None \<rparr>"

definition redirect_to :: "string \<Rightarrow> string + response" where
  "redirect_to url =
     Inr \<lparr> status_code = 302, resp_text = [], json_body = Inl ''JSONDecodeError'',
           location = Some url \<rparr>"

definition server_error :: "string + response" where
  "server_error =
     Inr \<lparr> status_code = 500, resp_text = ''Internal Server Error'',
           json_body = Inr (JObj [(''message'', JStr ''Internal Server Error'')]),
           location = None \<rparr>"

definition token_body :: "json \<Rightarrow> json" where
  "token_body expires_in =
     JObj [(''access_token'', JStr ''AT''), (''id_token'', JStr ''IDT''),
           (''refresh_token'', JStr ''RT''), (''expires_in'', expires_in)]"

text \<open>
  A server that asks for the username, then for the password, then hands out the token
  identifier, redirects with a code and answers the token request; every later call
  gets the answer \<open>api\<close>.
\<close>

definition login_script :: "json \<Rightarrow> string + response \<Rightarrow> nat \<Rightarrow> string + response" where
  "login_script expires_in api k =
     (if k = 0 then ok_json (JObj [(''authId'', JStr ''a1''), (''callbacks'', JArr [name_prompt, text_prompt])])
      else if k = 1 then ok_json (JObj [(''authId'', JStr ''a1''), (''callbacks'', JArr [password_prompt])])
      else if k = 2 then ok_json (JObj [(''tokenId'', JStr ''tok1'')])
      else if k = 3 then redirect_to ''com.toyota.oneapp:/oauth2Callback?code=c0de''
      else if k = 4 then ok_json (token_body expires_in)
      else api)"

definition demo_env :: env where
  "demo_env =
     \<lparr> responses = login_script (JInt 3600) (ok_json (JObj [(''payload'', JArr [])])),
       clock = (\<lambda>k. 63000000000000000 + int k),
       jwt_decode = (\<lambda>j. if j = JStr ''IDT'' then Inr (JObj [(''uuid'', JStr ''u1'')])
                          else Inl ''DecodeError''),
       parse_qs_location =
         (\<lambda>l. if l = Some ''com.toyota.oneapp:/oauth2Callback?code=c0de''
               then Inr [(''code'', [''c0de''])]
               else if l = Some ''com.toyota.oneapp:/oauth2Callback?error=access_denied''
               then Inr [(''error'', [''access_denied''])]
               else Inl ''TypeError''),
       py_repr = (\<lambda>j. []),
       API_BASE_URL = ''https://api.example'',
       ACCESS_TOKEN_URL = ''https://login.example/token'',
       AUTHENTICATE_URL = ''https://login.example/authenticate'',
       AUTHORIZE_URL = ''https://login.example/authorize'' \<rparr>"

definition demo_world :: world where
  "demo_world =
     \<lparr> self = Controller_init demo_env ''driver@example.com'' ''s3cret'' 30,
       sent = [], ticks = 0,
       heap = (\<lambda>a. if a = 0 then [(''x-brand'', JStr ''L''), (''accept'', JStr ''application/json'')]
                    else []) \<rparr>"

text \<open>The controller and the world after the login of \<open>demo_world\<close> against \<open>demo_env\<close>.\<close>

definition demo_session :: controller where
  "demo_session =
     (self demo_world)\<lparr> token := JStr ''AT'', refresh_token := JStr ''RT'', uuid := JStr ''u1'',
       token_expiration := Some 63000003600000000 \<rparr>"

text \<open>A name prompt with a type tag and an input slot, and no \<^verbatim>\<open>output\<close>.\<close>

definition name_prompt_no_output :: json where
  "name_prompt_no_output =
     JObj [(''type'', JStr ''NameCallback''),
           (''input'', JArr [JObj [(''name'', JStr ''IDToken1''), (''value'', JStr [])]])]"

text \<open>A server whose answers hold a text prompt and that name prompt.\<close>

definition odd_prompt_env :: env where
  "odd_prompt_env =
     demo_env\<lparr> responses :=
       (\<lambda>k. ok_json (JObj [(''authId'', JStr ''a1''),
                           (''callbacks'', JArr [text_prompt, name_prompt_no_output])])) \<rparr>"

text \<open>A server that keeps asking and never hands out a token identifier.\<close>

definition asking_env :: env where
  "asking_env =
     demo_env\<lparr> responses :=
       (\<lambda>k. ok_json (JObj [(''authId'', JStr ''a1''), (''callbacks'', JArr [text_prompt])])) \<rparr>"

text \<open>A server that answers every call with status 500.\<close>

definition failing_env :: env where
  "failing_env = demo_env\<lparr> responses := (\<lambda>k. server_error) \<rparr>"

text \<open>The login server of \<open>demo_env\<close>, with \<^verbatim>\<open>expires_in\<close> sent as the string \<^verbatim>\<open>"3600"\<close>.\<close>

definition string_expiry_env :: env where
  "string_expiry_env =
     demo_env\<lparr> responses := login_script (JStr ''3600'') (ok_json (JObj [])) \<rparr>"

text \<open>The login server of \<open>demo_env\<close>, with an identity token that carries no \<^verbatim>\<open>uuid\<close> claim.\<close>

definition no_uuid_env :: env where
  "no_uuid_env = demo_env\<lparr> jwt_decode := (\<lambda>j. Inr (JObj [(''sub'', JStr ''u1'')])) \<rparr>"

text \<open>The login server of \<open>demo_env\<close>, whose redirect carries an error and no code.\<close>

definition denied_env :: env where
  "denied_env =
     demo_env\<lparr> responses :=
       (\<lambda>k. if k = 3 then redirect_to ''com.toyota.oneapp:/oauth2Callback?error=access_denied''
            else login_script (JInt 3600) (ok_json (JObj [])) k) \<rparr>"

text \<open>The login server of \<open>demo_env\<close>, whose token answer holds the access token only.\<close>

definition missing_env :: env where
  "missing_env =
     demo_env\<lparr> responses :=
       (\<lambda>k. if k = 4 then ok_json (JObj [(''access_token'', JStr ''AT'')])
            else login_script (JInt 3600) (ok_json (JObj [])) k) \<rparr>"

text \<open>The login server of \<open>demo_env\<close>, whose token answer holds \<^verbatim>\<open>null\<close> as access token.\<close>

definition null_token_env :: env where
  "null_token_env =
     demo_env\<lparr> responses :=
       (\<lambda>k. if k = 4 then
              ok_json (JObj [(''access_token'', JNull), (''id_token'', JStr ''IDT''),
                             (''refresh_token'', JStr ''RT''), (''expires_in'', JInt 3600)])
            else login_script (JInt 3600) (ok_json (JObj [])) k) \<rparr>"

text \<open>The login server of \<open>demo_env\<close>, whose API answers 500.\<close>

definition api_down_env :: env where
  "api_down_env = demo_env\<lparr> responses := login_script (JInt 3600) server_error \<rparr>"

text \<open>A new process run whose controller holds the session of an earlier login.\<close>

definition relogin_world :: world where
  "relogin_world = demo_world\<lparr>self := demo_session\<rparr>"

section \<open>Basic facts\<close>

lemmas demo_defs =
  demo_env_def demo_world_def demo_session_def login_script_def ok_json_def redirect_to_def
  server_error_def token_body_def name_prompt_def password_prompt_def text_prompt_def
  Controller_init_def asking_env_def failing_env_def string_expiry_env_def no_uuid_env_def
  denied_env_def api_down_env_def missing_env_def odd_prompt_env_def name_prompt_no_output_def
  null_token_env_def relogin_world_def

lemma send_eq:
  "send E rq w =
     ((case responses E (length (sent w)) of Inl x \<Rightarrow> Inl (LibraryError x) | Inr r \<Rightarrow> Inr r),
      w\<lparr>sent := sent w @ [rq]\<rparr>)"
  by (simp add: send_def)

lemma send_response:
  "responses E (length (sent w)) = Inr r \<Longrightarrow> send E rq w = (Inr r, w\<lparr>sent := sent w @ [rq]\<rparr>)"
  by (simp add: send_def)

lemma send_exception:
  "responses E (length (sent w)) = Inl x \<Longrightarrow>
     send E rq w = (Inl (LibraryError x), w\<lparr>sent := sent w @ [rq]\<rparr>)"
  by (simp add: send_def)


lemma is_token_valid_self [simp]: "self (snd (is_token_valid E w)) = self w"
  by (simp add: is_token_valid_def now_def)

lemma is_token_valid_sent [simp]: "sent (snd (is_token_valid E w)) = sent w"
  by (simp add: is_token_valid_def now_def)

lemma is_token_valid_heap [simp]: "heap (snd (is_token_valid E w)) = heap w"
  by (simp add: is_token_valid_def now_def)

section \<open>The session-validity predicate\<close>

text \<open>
  C1. The claim: \<^verbatim>\<open>_is_token_valid\<close> is true exactly when a token is stored and the
  expiry is strictly in the future. The code tests \<^verbatim>\<open>self._token or ...\<close> where it
  needs \<^verbatim>\<open>self._token is None or ...\<close>: with the access token \<^verbatim>\<open>"AT"\<close> stored and
  an expiry one hour after the clock reading, it answers false, and it does not read
  the clock.
\<close>

theorem is_token_valid_rejects_stored_token:
  "token demo_session = JStr ''AT''
   \<and> token_expiration demo_session = Some 63000003600000000
   \<and> clock demo_env (ticks demo_world) < 63000003600000000
   \<and> is_token_valid demo_env (demo_world\<lparr>self := demo_session\<rparr>)
       = (False, demo_world\<lparr>self := demo_session\<rparr>)"
  by (simp add: is_token_valid_def demo_defs)

section \<open>The method allow-list\<close>

text \<open>
  C2. A call of \<^verbatim>\<open>request_raw\<close> or \<^verbatim>\<open>request_json\<close> whose method is not GET, POST, PUT
  or DELETE fails with \<^verbatim>\<open>ToyotaInternalError\<close> and returns the world it was given: the
  controller is unchanged, the clock has not been read for a validity check, no login
  has run and nothing has been handed to the HTTP client.
\<close>

theorem request_raw_invalid_method:
  "method \<notin> set [''GET'', ''POST'', ''PUT'', ''DELETE''] \<Longrightarrow>
     request_raw E method endpoint vin body params headers w
       = (Inl (ToyotaInternalError ''Invalid request method provided''), w)
   \<and> request_json E method endpoint vin body params headers w
       = (Inl (ToyotaInternalError ''Invalid request method provided''), w)"
  by (simp add: request_raw_def request_json_def)

theorem request_raw_invalid_method_witness:
  "''PATCH'' \<notin> set [''GET'', ''POST'', ''PUT'', ''DELETE'']
   \<and> request_raw demo_env ''PATCH'' ''/v1/vehicle'' None JNull JNull None demo_world
       = (Inl (ToyotaInternalError ''Invalid request method provided''), demo_world)
   \<and> request_json demo_env ''PATCH'' ''/v1/vehicle'' None JNull JNull None demo_world
       = (Inl (ToyotaInternalError ''Invalid request method provided''), demo_world)"
  using request_raw_invalid_method
    [of "''PATCH''" demo_env "''/v1/vehicle''" None JNull JNull None demo_world]
  by simp

section \<open>The rounds of the challenge loop\<close>

lemma challenge_loop_continue:
  assumes "fill_callbacks (username (self w)) (password (self w)) data = Inr d1"
    and "responses E (length (sent w)) = Inr resp"
    and "status_code resp = 200"
    and "json_body resp = Inr d2"
    and "py_in ''tokenId'' d2 = Inr False"
  shows "challenge_loop E (Suc n) data w
           = challenge_loop E n d2 (w\<lparr>sent := sent w @ [authenticate_request (self w) d1]\<rparr>)"
  using assms by (simp add: send_def)

lemma challenge_loop_break:
  assumes "fill_callbacks (username (self w)) (password (self w)) data = Inr d1"
    and "responses E (length (sent w)) = Inr resp"
    and "status_code resp = 200"
    and "json_body resp = Inr d2"
    and "py_in ''tokenId'' d2 = Inr True"
  shows "challenge_loop E (Suc n) data w
           = (Inr d2, w\<lparr>sent := sent w @ [authenticate_request (self w) d1]\<rparr>)"
  using assms by (simp add: send_def)

lemma challenge_loop_status:
  assumes "fill_callbacks (username (self w)) (password (self w)) data = Inr d1"
    and "responses E (length (sent w)) = Inr resp"
    and "status_code resp \<noteq> 200"
  shows "challenge_loop E (Suc n) data w
           = (Inl (ToyotaLoginError (''Authentication Failed. '' @ str_int (status_code resp)
                     @ '', '' @ resp_text resp @ ''.'')),
              w\<lparr>sent := sent w @ [authenticate_request (self w) d1]\<rparr>)"
  using assms by (simp add: send_def)

lemma challenge_loop_unfillable:
  assumes "fill_callbacks (username (self w)) (password (self w)) data = Inl e"
  shows "challenge_loop E (Suc n) data w = (Inl e, w)"
  using assms by simp

text \<open>The loop only hands calls to the client: at most one per round, all of them POSTs.\<close>

lemma challenge_loop_frame:
  "\<exists>ys. snd (challenge_loop E n data w) = w\<lparr>sent := sent w @ ys\<rparr> \<and> length ys \<le> n
        \<and> (\<forall>rq \<in> set ys. rq_method rq = ''POST'' \<and> rq_url rq = authenticate_url (self w))"
proof (induction n arbitrary: data w)
  case 0
  show ?case by simp
next
  case (Suc n)
  show ?case
  proof (cases "fill_callbacks (username (self w)) (password (self w)) data")
    case (Inl e)
    then show ?thesis by (intro exI [of _ "[]"]) simp
  next
    case (Inr d1)
    let ?rq = "authenticate_request (self w) d1"
    let ?w1 = "w\<lparr>sent := sent w @ [?rq]\<rparr>"
    have one: "\<exists>ys. ?w1 = w\<lparr>sent := sent w @ ys\<rparr> \<and> length ys \<le> Suc n
        \<and> (\<forall>rq \<in> set ys. rq_method rq = ''POST'' \<and> rq_url rq = authenticate_url (self w))"
      by (rule exI [of _ "[?rq]"]) (simp add: authenticate_request_def)
    have stop: "snd (challenge_loop E (Suc n) data w) = ?w1 \<Longrightarrow> ?thesis"
      using one by simp
    show ?thesis
    proof (cases "\<exists>resp d2. responses E (length (sent w)) = Inr resp \<and> status_code resp = 200
                    \<and> json_body resp = Inr d2 \<and> py_in ''tokenId'' d2 = Inr False")
      case False
      then have "snd (challenge_loop E (Suc n) data w) = ?w1"
        using Inr by (auto simp: send_def split: sum.splits bool.splits)
      then show ?thesis by (rule stop)
    next
      case True
      then obtain resp d2 where r: "responses E (length (sent w)) = Inr resp" "status_code resp = 200"
        "json_body resp = Inr d2" "py_in ''tokenId'' d2 = Inr False"
        by blast
      from Suc.IH [of d2 ?w1] obtain ys where
        ys: "snd (challenge_loop E n d2 ?w1) = ?w1\<lparr>sent := sent ?w1 @ ys\<rparr>" "length ys \<le> n"
          "\<forall>rq \<in> set ys. rq_method rq = ''POST'' \<and> rq_url rq = authenticate_url (self ?w1)"
        by blast
      have "challenge_loop E (Suc n) data w = challenge_loop E n d2 ?w1"
        using Inr r by (rule challenge_loop_continue)
      with ys show ?thesis
        by (intro exI [of _ "?rq # ys"]) (simp add: authenticate_request_def)
    qed
  qed
qed

lemma challenge_loop_first_post:
  assumes "fill_callbacks (username (self w)) (password (self w)) data = Inr d1"
  shows "\<exists>ys. sent (snd (challenge_loop E (Suc n) data w))
                = sent w @ authenticate_request (self w) d1 # ys"
proof -
  let ?rq = "authenticate_request (self w) d1"
  let ?w1 = "w\<lparr>sent := sent w @ [?rq]\<rparr>"
  show ?thesis
  proof (cases "\<exists>resp d2. responses E (length (sent w)) = Inr resp \<and> status_code resp = 200
                  \<and> json_body resp = Inr d2 \<and> py_in ''tokenId'' d2 = Inr False")
    case False
    then have "snd (challenge_loop E (Suc n) data w) = ?w1"
      using assms by (auto simp: send_def split: sum.splits bool.splits)
    then show ?thesis by simp
  next
    case True
    then obtain resp d2 where r: "responses E (length (sent w)) = Inr resp" "status_code resp = 200"
      "json_body resp = Inr d2" "py_in ''tokenId'' d2 = Inr False"
      by blast
    have eq: "challenge_loop E (Suc n) data w = challenge_loop E n d2 ?w1"
      using assms r by (rule challenge_loop_continue)
    from challenge_loop_frame [of E n d2 ?w1] obtain ys where
      "snd (challenge_loop E n d2 ?w1) = ?w1\<lparr>sent := sent ?w1 @ ys\<rparr>"
      by blast
    with eq show ?thesis by simp
  qed
qed

lemma challenge_loop_exhausts:
  assumes "\<forall>k<n. round_continues E (self w) (length (sent w) + k)"
    and "fill_callbacks (username (self w)) (password (self w)) data = Inr d1"
    and "py_in ''tokenId'' data = Inr False"
  shows "\<exists>d ys. challenge_loop E n data w = (Inr d, w\<lparr>sent := sent w @ ys\<rparr>) \<and> length ys = n
              \<and> py_in ''tokenId'' d = Inr False"
  using assms
proof (induction n arbitrary: data w d1)
  case 0
  then show ?case by simp
next
  case (Suc n)
  let ?rq = "authenticate_request (self w) d1"
  let ?w1 = "w\<lparr>sent := sent w @ [?rq]\<rparr>"
  from Suc.prems(1) have "round_continues E (self w) (length (sent w))"
    by (metis add.right_neutral zero_less_Suc)
  then obtain resp d2 d3 where r: "responses E (length (sent w)) = Inr resp" "status_code resp = 200"
    "json_body resp = Inr d2" "py_in ''tokenId'' d2 = Inr False"
    and f: "fill_callbacks (username (self w)) (password (self w)) d2 = Inr d3"
    by (auto simp: round_continues_def split: sum.splits)
  have eq: "challenge_loop E (Suc n) data w = challenge_loop E n d2 ?w1"
    using Suc.prems(2) r by (rule challenge_loop_continue)
  have "\<forall>k<n. round_continues E (self ?w1) (length (sent ?w1) + k)"
  proof (intro allI impI)
    fix k assume "k < n"
    then have "round_continues E (self w) (length (sent w) + Suc k)"
      using Suc.prems(1) [rule_format, of "Suc k"] by simp
    then show "round_continues E (self ?w1) (length (sent ?w1) + k)" by simp
  qed
  from Suc.IH [OF this, of d2 d3] f r(4) obtain d ys where
    "challenge_loop E n d2 ?w1 = (Inr d, ?w1\<lparr>sent := sent ?w1 @ ys\<rparr>)" "length ys = n"
    "py_in ''tokenId'' d = Inr False"
    by auto
  with eq show ?case
    by (intro exI [of _ d] exI [of _ "?rq # ys"]) simp
qed

lemma challenge_loop_early:
  assumes "\<forall>k<m. round_continues E (self w) (length (sent w) + k)"
    and "fill_callbacks (username (self w)) (password (self w)) data = Inr d1"
    and "answers_token_id E (length (sent w) + m) d"
    and "m < n"
  shows "\<exists>ys. challenge_loop E n data w = (Inr d, w\<lparr>sent := sent w @ ys\<rparr>) \<and> length ys = Suc m"
  using assms
proof (induction m arbitrary: data w d1 n)
  case 0
  let ?rq = "authenticate_request (self w) d1"
  from 0 obtain n' where n: "n = Suc n'" by (cases n) auto
  from 0(3) obtain resp where "responses E (length (sent w)) = Inr resp" "status_code resp = 200"
    "json_body resp = Inr d" "py_in ''tokenId'' d = Inr True"
    by (auto simp: answers_token_id_def split: sum.splits)
  with 0(2) have "challenge_loop E (Suc n') data w = (Inr d, w\<lparr>sent := sent w @ [?rq]\<rparr>)"
    by (rule challenge_loop_break)
  with n show ?case by (intro exI [of _ "[?rq]"]) simp
next
  case (Suc m)
  let ?rq = "authenticate_request (self w) d1"
  let ?w1 = "w\<lparr>sent := sent w @ [?rq]\<rparr>"
  from Suc.prems(4) obtain n' where n: "n = Suc n'" "m < n'" by (cases n) auto
  from Suc.prems(1) have "round_continues E (self w) (length (sent w))"
    by (metis add.right_neutral zero_less_Suc)
  then obtain resp d2 d3 where r: "responses E (length (sent w)) = Inr resp" "status_code resp = 200"
    "json_body resp = Inr d2" "py_in ''tokenId'' d2 = Inr False"
    and f: "fill_callbacks (username (self w)) (password (self w)) d2 = Inr d3"
    by (auto simp: round_continues_def split: sum.splits)
  have eq: "challenge_loop E (Suc n') data w = challenge_loop E n' d2 ?w1"
    using Suc.prems(2) r by (rule challenge_loop_continue)
  have c: "\<forall>k<m. round_continues E (self ?w1) (length (sent ?w1) + k)"
  proof (intro allI impI)
    fix k assume "k < m"
    then have "round_continues E (self w) (length (sent w) + Suc k)"
      using Suc.prems(1) [rule_format, of "Suc k"] by simp
    then show "round_continues E (self ?w1) (length (sent ?w1) + k)" by simp
  qed
  have a: "answers_token_id E (length (sent ?w1) + m) d"
    using Suc.prems(3) by simp
  from Suc.IH [OF c _ a n(2), of d2 d3] f obtain ys where
    "challenge_loop E n' d2 ?w1 = (Inr d, ?w1\<lparr>sent := sent ?w1 @ ys\<rparr>)" "length ys = Suc m"
    by auto
  with eq n show ?case
    by (intro exI [of _ "?rq # ys"]) simp
qed

section \<open>The callback prompts\<close>

lemma fill_callback_wf:
  assumes "wf_prompt cb"
  shows "fill_callback u p cb = Inr (answer_prompt u p cb)"
proof -
  from assms obtain kvs t where cb: "cb = JObj kvs" and t: "map_of kvs ''type'' = Some t"
    by (auto simp: wf_prompt_def prompt_type_def split: json.splits)
  show ?thesis
  proof (cases "t = JStr ''NameCallback''")
    case True
    with assms cb t obtain s rest v where
      out: "map_of kvs ''output'' = Some (JArr (JObj s # rest))" "map_of s ''value'' = Some v"
      by (auto simp: wf_prompt_def prompt_type_def slot_value_def first_slot_def
          split: json.splits option.splits list.splits)
    show ?thesis
    proof (cases "v = JStr ''User Name''")
      case False
      with True cb t out show ?thesis
        by (simp add: fill_callback_def is_username_prompt_def answer_prompt_def
            declares_username_def is_password_prompt_def prompt_type_def slot_value_def
            first_slot_def)
    next
      case v: True
      with True cb t out have "declares_username cb"
        by (simp add: declares_username_def prompt_type_def slot_value_def first_slot_def)
      with assms cb obtain i irest where
        inp: "map_of kvs ''input'' = Some (JArr (JObj i # irest))"
        by (auto simp: wf_prompt_def first_slot_def split: json.splits option.splits list.splits)
      show ?thesis
        using True v cb t out inp
        by (simp add: fill_callback_def is_username_prompt_def set_input_value_def
            answer_prompt_def declares_username_def is_password_prompt_def prompt_type_def
            slot_value_def first_slot_def with_input_value_def)
    qed
  next
    case False
    note notname = False
    show ?thesis
    proof (cases "t = JStr ''PasswordCallback''")
      case True
      with cb t have "is_password_prompt cb"
        by (simp add: is_password_prompt_def prompt_type_def)
      with assms cb obtain i irest where
        inp: "map_of kvs ''input'' = Some (JArr (JObj i # irest))"
        by (auto simp: wf_prompt_def first_slot_def split: json.splits option.splits list.splits)
      show ?thesis
        using True cb t inp
        by (simp add: fill_callback_def is_username_prompt_def set_input_value_def answer_prompt_def
            declares_username_def is_password_prompt_def prompt_type_def slot_value_def first_slot_def
            with_input_value_def)
    next
      case False
      show ?thesis
        using False notname cb t
        by (simp add: fill_callback_def is_username_prompt_def answer_prompt_def
            declares_username_def is_password_prompt_def prompt_type_def)
    qed
  qed
qed

lemma py_getitem_lookup: "py_getitem j k = Inl e \<Longrightarrow> is_lookup_error e"
  by (cases j) (auto split: option.splits)

lemma py_index0_lookup: "py_index0 j = Inl e \<Longrightarrow> is_lookup_error e"
  by (cases j rule: py_index0.cases) auto

lemma py_setitem_lookup: "py_setitem j k v = Inl e \<Longrightarrow> is_lookup_error e"
  by (cases j) auto

lemma set_input_value_lookup: "set_input_value cb v = Inl e \<Longrightarrow> is_lookup_error e"
  by (auto simp: set_input_value_def split: sum.splits
      dest: py_getitem_lookup py_index0_lookup py_setitem_lookup)

lemma is_username_prompt_lookup: "is_username_prompt cb = Inl e \<Longrightarrow> is_lookup_error e"
  by (auto simp: is_username_prompt_def split: sum.splits if_splits
      dest: py_getitem_lookup py_index0_lookup)

lemma fill_callback_lookup: "fill_callback u p cb = Inl e \<Longrightarrow> is_lookup_error e"
  by (auto simp: fill_callback_def split: sum.splits bool.splits if_splits
      dest: py_getitem_lookup set_input_value_lookup is_username_prompt_lookup)

text \<open>A prompt the loop body gets through is well formed.\<close>

lemma py_getitem_Inr: "py_getitem j k = Inr v \<Longrightarrow> \<exists>kvs. j = JObj kvs \<and> map_of kvs k = Some v"
  by (cases j) (auto split: option.splits)

lemma py_index0_object:
  "py_index0 j = Inr x \<Longrightarrow> py_getitem x k = Inr v \<Longrightarrow> \<exists>s rest. j = JArr (JObj s # rest) \<and> x = JObj s"
  by (cases j rule: py_index0.cases) (auto dest: py_getitem_Inr)

lemma py_index0_settable:
  "py_index0 j = Inr x \<Longrightarrow> py_setitem x k v = Inr y \<Longrightarrow> \<exists>s rest. j = JArr (JObj s # rest) \<and> x = JObj s"
  by (cases j rule: py_index0.cases; cases x) auto

lemma set_input_value_Inr: "set_input_value cb v = Inr cb' \<Longrightarrow> first_slot cb ''input'' \<noteq> None"
  by (auto simp: set_input_value_def first_slot_def split: sum.splits
      dest!: py_getitem_Inr py_index0_settable)

lemma is_username_prompt_Inr:
  "is_username_prompt cb = Inr b \<Longrightarrow>
     prompt_type cb \<noteq> None
     \<and> (prompt_type cb = Some (JStr ''NameCallback'') \<longrightarrow> slot_value cb ''output'' \<noteq> None)
     \<and> b = declares_username cb"
proof -
  assume a: "is_username_prompt cb = Inr b"
  then obtain kvs t where cb: "cb = JObj kvs" and t: "map_of kvs ''type'' = Some t"
    by (auto simp: is_username_prompt_def split: sum.splits dest!: py_getitem_Inr)
  show ?thesis
  proof (cases "t = JStr ''NameCallback''")
    case False
    with a cb t show ?thesis
      by (simp add: is_username_prompt_def prompt_type_def declares_username_def)
  next
    case True
    with a cb t obtain out o0 v where
      o: "map_of kvs ''output'' = Some out" "py_index0 out = Inr o0" "py_getitem o0 ''value'' = Inr v"
        "b = (v = JStr ''User Name'')"
      by (auto simp: is_username_prompt_def split: sum.splits option.splits)
    from py_index0_object [OF o(2,3)] obtain s rest where
      s: "out = JArr (JObj s # rest)" "o0 = JObj s"
      by blast
    with o(3) have "map_of s ''value'' = Some v" by (auto split: option.splits)
    with True cb t o s show ?thesis
      by (simp add: prompt_type_def declares_username_def slot_value_def first_slot_def)
  qed
qed

lemma fill_callback_Inr: "fill_callback u p cb = Inr cb' \<Longrightarrow> wf_prompt cb"
proof -
  assume a: "fill_callback u p cb = Inr cb'"
  then obtain b where b: "is_username_prompt cb = Inr b"
    by (auto simp: fill_callback_def split: sum.splits)
  note u = is_username_prompt_Inr [OF b]
  show ?thesis
  proof (cases b)
    case True
    with a b have "set_input_value cb (JStr u) = Inr cb'" by (simp add: fill_callback_def)
    then have "first_slot cb ''input'' \<noteq> None" by (rule set_input_value_Inr)
    with u show ?thesis by (simp add: wf_prompt_def)
  next
    case False
    show ?thesis
    proof (cases "is_password_prompt cb")
      case p: True
      then have "py_getitem cb ''type'' = Inr (JStr ''PasswordCallback'')"
        by (auto simp: is_password_prompt_def prompt_type_def split: json.splits)
      with a b False have "set_input_value cb (JStr p) = Inr cb'" by (simp add: fill_callback_def)
      then have "first_slot cb ''input'' \<noteq> None" by (rule set_input_value_Inr)
      with u show ?thesis by (simp add: wf_prompt_def)
    next
      case np: False
      with u False show ?thesis by (simp add: wf_prompt_def)
    qed
  qed
qed

lemma fill_callback_not_wf:
  assumes "\<not> wf_prompt cb"
  shows "\<exists>e. is_lookup_error e \<and> fill_callback u p cb = Inl e"
proof (cases "fill_callback u p cb")
  case (Inl e)
  then show ?thesis using fill_callback_lookup by blast
next
  case (Inr cb')
  then have "wf_prompt cb" by (rule fill_callback_Inr)
  with assms show ?thesis by simp
qed

lemma fill_all_wf:
  "\<forall>cb \<in> set cbs. wf_prompt cb \<Longrightarrow> fill_all u p cbs = Inr (map (answer_prompt u p) cbs)"
  by (induction cbs) (simp_all add: fill_callback_wf)

lemma fill_all_not_wf:
  "\<not> (\<forall>cb \<in> set cbs. wf_prompt cb) \<Longrightarrow> \<exists>e. is_lookup_error e \<and> fill_all u p cbs = Inl e"
proof (induction cbs)
  case Nil
  then show ?case by simp
next
  case (Cons cb cbs)
  show ?case
  proof (cases "wf_prompt cb")
    case False
    from fill_callback_not_wf [OF this, of u p] show ?thesis by auto
  next
    case True
    with Cons.prems have "\<not> (\<forall>cb \<in> set cbs. wf_prompt cb)" by simp
    from Cons.IH [OF this] True show ?thesis by (auto simp: fill_callback_wf)
  qed
qed

lemma callbacks_present:
  assumes "py_getitem data ''callbacks'' = Inr v"
  shows "py_in ''callbacks'' data = Inr True"
proof -
  from py_getitem_Inr [OF assms] obtain kvs where
    "data = JObj kvs" "map_of kvs ''callbacks'' = Some v"
    by blast
  then show ?thesis using map_of_SomeD [of kvs "''callbacks''" v] by force
qed

lemma fill_callbacks_wf:
  assumes "py_getitem data ''callbacks'' = Inr (JArr cbs)" and "\<forall>cb \<in> set cbs. wf_prompt cb"
  shows "fill_callbacks u p data
           = Inr (store_key data ''callbacks'' (JArr (map (answer_prompt u p) cbs)))"
  using assms callbacks_present [OF assms(1)] by (simp add: fill_callbacks_def fill_all_wf)

lemma fill_callbacks_not_wf:
  assumes "py_getitem data ''callbacks'' = Inr (JArr cbs)" and "\<not> (\<forall>cb \<in> set cbs. wf_prompt cb)"
  shows "\<exists>e. is_lookup_error e \<and> fill_callbacks u p data = Inl e"
proof -
  from fill_all_not_wf [OF assms(2), of u p] obtain e where
    "is_lookup_error e" "fill_all u p cbs = Inl e"
    by blast
  with assms(1) callbacks_present [OF assms(1)] show ?thesis
    by (simp add: fill_callbacks_def)
qed

lemma with_input_value_slot:
  "first_slot cb ''input'' \<noteq> None \<Longrightarrow> slot_value (with_input_value cb v) ''input'' = Some v"
  by (auto simp: first_slot_def slot_value_def with_input_value_def update_conv'
      split: json.splits option.splits list.splits)

lemma with_input_value_other_keys:
  "k \<noteq> ''input'' \<Longrightarrow> py_getitem (with_input_value cb v) k = py_getitem cb k"
  by (auto simp: with_input_value_def update_conv'
      split: json.splits option.splits list.splits)

lemma store_key_other_keys:
  "k \<noteq> k' \<Longrightarrow> py_getitem (store_key data k' v) k = py_getitem data k"
  by (cases data) (simp_all add: update_conv')

text \<open>The first call a round hands to the client, when its prompts can be filled.\<close>

lemma challenge_loop_posts_filled:
  assumes "fill_callbacks (username (self w)) (password (self w)) data = Inr d1"
  shows "\<exists>rq ys. sent (snd (challenge_loop E (Suc n) data w)) = sent w @ rq # ys
           \<and> rq_method rq = ''POST'' \<and> rq_url rq = authenticate_url (self w) \<and> rq_json rq = d1"
proof -
  from challenge_loop_first_post [OF assms, of E n] obtain ys where
    "sent (snd (challenge_loop E (Suc n) data w)) = sent w @ authenticate_request (self w) d1 # ys"
    by blast
  then show ?thesis
    by (intro exI [of _ "authenticate_request (self w) d1"] exI [of _ ys])
      (simp add: authenticate_request_def)
qed

text \<open>
  C8. The claim: for every list of callback prompts the round fills the username prompt
  and the password prompts and resubmits every other prompt as it came. As amended: take
  a round whose challenge state holds the list \<open>cbs\<close> under \<^verbatim>\<open>callbacks\<close>. When every
  prompt is well formed (an object with a type tag; a \<^verbatim>\<open>NameCallback\<close> with a value in
  its first output entry; a prompt to be filled with an object as first input entry),
  lines 52 to 57 answer every prompt as the specification says (\<open>answer_prompt\<close>): the
  input slot of the prompt that declares the username purpose reads the stored
  username, the input slot of a password prompt reads the stored password, every other
  prompt is the prompt the server sent, a filled prompt differs from the one sent in
  nothing but its \<^verbatim>\<open>input\<close>, and the rest of the challenge state is untouched; that
  state is the JSON body of the POST the round makes to the authenticate URL. When
  some prompt is not well formed, the round raises \<^verbatim>\<open>KeyError\<close>, \<^verbatim>\<open>IndexError\<close> or
  \<^verbatim>\<open>TypeError\<close> and posts nothing.
\<close>

theorem fill_callbacks_prompts:
  assumes "py_getitem data ''callbacks'' = Inr (JArr cbs)"
    and "username (self w) = user" and "password (self w) = pass"
  shows "((\<forall>cb \<in> set cbs. wf_prompt cb) \<longrightarrow>
            fill_callbacks user pass data
              = Inr (store_key data ''callbacks'' (JArr (map (answer_prompt user pass) cbs)))
          \<and> (\<forall>cb \<in> set cbs.
                (declares_username cb \<longrightarrow>
                   slot_value (answer_prompt user pass cb) ''input'' = Some (JStr user))
              \<and> (is_password_prompt cb \<longrightarrow>
                   slot_value (answer_prompt user pass cb) ''input'' = Some (JStr pass))
              \<and> (\<not> declares_username cb \<and> \<not> is_password_prompt cb \<longrightarrow>
                   answer_prompt user pass cb = cb)
              \<and> (\<forall>k. k \<noteq> ''input'' \<longrightarrow>
                   py_getitem (answer_prompt user pass cb) k = py_getitem cb k))
          \<and> (\<forall>k. k \<noteq> ''callbacks'' \<longrightarrow>
                py_getitem (store_key data ''callbacks'' (JArr (map (answer_prompt user pass) cbs))) k
                  = py_getitem data k)
          \<and> (\<exists>rq ys. sent (snd (challenge_loop E (Suc n) data w)) = sent w @ rq # ys
                \<and> rq_method rq = ''POST'' \<and> rq_url rq = authenticate_url (self w)
                \<and> rq_json rq
                    = store_key data ''callbacks'' (JArr (map (answer_prompt user pass) cbs))))
       \<and> (\<not> (\<forall>cb \<in> set cbs. wf_prompt cb) \<longrightarrow>
            (\<exists>e. is_lookup_error e
                \<and> fill_callbacks user pass data = Inl e
                \<and> challenge_loop E (Suc n) data w = (Inl e, w)))"
proof (intro conjI impI)
  assume wf: "\<forall>cb \<in> set cbs. wf_prompt cb"
  let ?filled = "store_key data ''callbacks'' (JArr (map (answer_prompt user pass) cbs))"
  show f: "fill_callbacks user pass data = Inr ?filled"
    using assms(1) wf by (rule fill_callbacks_wf)
  show "\<exists>rq ys. sent (snd (challenge_loop E (Suc n) data w)) = sent w @ rq # ys
                \<and> rq_method rq = ''POST'' \<and> rq_url rq = authenticate_url (self w)
                \<and> rq_json rq = ?filled"
    using f assms(2,3) challenge_loop_posts_filled [of w data ?filled E n] by simp
  show "\<forall>k. k \<noteq> ''callbacks'' \<longrightarrow> py_getitem ?filled k = py_getitem data k"
    by (simp add: store_key_other_keys)
  show "\<forall>cb \<in> set cbs.
                (declares_username cb \<longrightarrow>
                   slot_value (answer_prompt user pass cb) ''input'' = Some (JStr user))
              \<and> (is_password_prompt cb \<longrightarrow>
                   slot_value (answer_prompt user pass cb) ''input'' = Some (JStr pass))
              \<and> (\<not> declares_username cb \<and> \<not> is_password_prompt cb \<longrightarrow>
                   answer_prompt user pass cb = cb)
              \<and> (\<forall>k. k \<noteq> ''input'' \<longrightarrow>
                   py_getitem (answer_prompt user pass cb) k = py_getitem cb k)"
  proof (intro ballI conjI)
    fix cb assume "cb \<in> set cbs"
    with wf have w: "wf_prompt cb" by blast
    show "declares_username cb \<longrightarrow>
            slot_value (answer_prompt user pass cb) ''input'' = Some (JStr user)"
      using w by (auto simp: answer_prompt_def wf_prompt_def intro!: with_input_value_slot)
    show "is_password_prompt cb \<longrightarrow>
            slot_value (answer_prompt user pass cb) ''input'' = Some (JStr pass)"
      using w by (auto simp: answer_prompt_def wf_prompt_def declares_username_def
          is_password_prompt_def intro!: with_input_value_slot)
    show "\<not> declares_username cb \<and> \<not> is_password_prompt cb \<longrightarrow> answer_prompt user pass cb = cb"
      by (simp add: answer_prompt_def)
    show "\<forall>k. k \<noteq> ''input'' \<longrightarrow> py_getitem (answer_prompt user pass cb) k = py_getitem cb k"
      by (simp add: answer_prompt_def with_input_value_other_keys)
  qed
next
  assume "\<not> (\<forall>cb \<in> set cbs. wf_prompt cb)"
  from fill_callbacks_not_wf [OF assms(1) this, of user pass] obtain e where
    e: "is_lookup_error e" "fill_callbacks user pass data = Inl e"
    by blast
  with assms(2,3) have "challenge_loop E (Suc n) data w = (Inl e, w)" by simp
  with e show "\<exists>e. is_lookup_error e \<and> fill_callbacks user pass data = Inl e
                \<and> challenge_loop E (Suc n) data w = (Inl e, w)"
    by blast
qed

lemmas prompt_defs = wf_prompt_def prompt_type_def slot_value_def first_slot_def
  declares_username_def is_password_prompt_def answer_prompt_def with_input_value_def

lemma demo_prompts_wf: "\<forall>cb \<in> set [name_prompt, password_prompt, text_prompt]. wf_prompt cb"
  by (simp add: prompt_defs name_prompt_def password_prompt_def text_prompt_def)

theorem fill_callbacks_prompts_witness:
  "wf_prompt name_prompt \<and> wf_prompt password_prompt \<and> wf_prompt text_prompt
   \<and> declares_username name_prompt \<and> is_password_prompt password_prompt
   \<and> fill_callbacks ''driver@example.com'' ''s3cret''
        (JObj [(''authId'', JStr ''a1''),
               (''callbacks'', JArr [name_prompt, password_prompt, text_prompt])])
     = Inr (JObj [(''authId'', JStr ''a1''),
            (''callbacks'', JArr [
               JObj [(''type'', JStr ''NameCallback''),
                     (''output'', JArr [JObj [(''name'', JStr ''prompt''), (''value'', JStr ''User Name'')]]),
                     (''input'', JArr [JObj [(''name'', JStr ''IDToken1''),
                                             (''value'', JStr ''driver@example.com'')]])],
               JObj [(''type'', JStr ''PasswordCallback''),
                     (''output'', JArr [JObj [(''name'', JStr ''prompt''), (''value'', JStr ''Password'')]]),
                     (''input'', JArr [JObj [(''name'', JStr ''IDToken2''), (''value'', JStr ''s3cret'')]])],
               text_prompt])])
   \<and> (\<exists>rq ys. sent (snd (challenge_loop asking_env (Suc 0)
                     (JObj [(''authId'', JStr ''a1''),
                            (''callbacks'', JArr [name_prompt, password_prompt, text_prompt])])
                     demo_world)) = rq # ys
         \<and> rq_method rq = ''POST'' \<and> rq_url rq = ''https://login.example/authenticate''
         \<and> rq_json rq
             = JObj [(''authId'', JStr ''a1''),
                 (''callbacks'', JArr [
                    JObj [(''type'', JStr ''NameCallback''),
                          (''output'', JArr [JObj [(''name'', JStr ''prompt''), (''value'', JStr ''User Name'')]]),
                          (''input'', JArr [JObj [(''name'', JStr ''IDToken1''),
                                                  (''value'', JStr ''driver@example.com'')]])],
                    JObj [(''type'', JStr ''PasswordCallback''),
                          (''output'', JArr [JObj [(''name'', JStr ''prompt''), (''value'', JStr ''Password'')]]),
                          (''input'', JArr [JObj [(''name'', JStr ''IDToken2''), (''value'', JStr ''s3cret'')]])],
                    text_prompt])])
   \<and> \<not> wf_prompt name_prompt_no_output
   \<and> challenge_loop asking_env (Suc 0)
        (JObj [(''authId'', JStr ''a1''), (''callbacks'', JArr [text_prompt, name_prompt_no_output])])
        demo_world
       = (Inl (KeyError ''output''), demo_world)"
proof -
  let ?cbs = "[name_prompt, password_prompt, text_prompt]"
  let ?data = "JObj [(''authId'', JStr ''a1''), (''callbacks'', JArr ?cbs)]"
  let ?odd = "[text_prompt, name_prompt_no_output]"
  let ?odd_data = "JObj [(''authId'', JStr ''a1''), (''callbacks'', JArr ?odd)]"
  have g: "py_getitem ?data ''callbacks'' = Inr (JArr ?cbs)" by simp
  have g': "py_getitem ?odd_data ''callbacks'' = Inr (JArr ?odd)" by simp
  have u: "username (self demo_world) = ''driver@example.com''"
    and p: "password (self demo_world) = ''s3cret''"
    by (simp_all add: demo_world_def Controller_init_def)
  have a: "authenticate_url (self demo_world) = ''https://login.example/authenticate''"
    by (simp add: demo_world_def Controller_init_def demo_env_def)
  have s: "sent demo_world = []" by (simp add: demo_world_def)
  have v: "store_key ?data ''callbacks''
             (JArr (map (answer_prompt ''driver@example.com'' ''s3cret'') ?cbs))
           = JObj [(''authId'', JStr ''a1''),
            (''callbacks'', JArr [
               JObj [(''type'', JStr ''NameCallback''),
                     (''output'', JArr [JObj [(''name'', JStr ''prompt''), (''value'', JStr ''User Name'')]]),
                     (''input'', JArr [JObj [(''name'', JStr ''IDToken1''),
                                             (''value'', JStr ''driver@example.com'')]])],
               JObj [(''type'', JStr ''PasswordCallback''),
                     (''output'', JArr [JObj [(''name'', JStr ''prompt''), (''value'', JStr ''Password'')]]),
                     (''input'', JArr [JObj [(''name'', JStr ''IDToken2''), (''value'', JStr ''s3cret'')]])],
               text_prompt])]"
    by (simp add: prompt_defs name_prompt_def password_prompt_def text_prompt_def)
  note T = fill_callbacks_prompts [OF g u p, of asking_env 0, THEN conjunct1, THEN mp,
      OF demo_prompts_wf]
  have 1: "fill_callbacks ''driver@example.com'' ''s3cret'' ?data
           = Inr (store_key ?data ''callbacks''
                   (JArr (map (answer_prompt ''driver@example.com'' ''s3cret'') ?cbs)))"
    using T by blast
  have 2: "\<exists>rq ys. sent (snd (challenge_loop asking_env (Suc 0) ?data demo_world)) = rq # ys
         \<and> rq_method rq = ''POST'' \<and> rq_url rq = ''https://login.example/authenticate''
         \<and> rq_json rq = store_key ?data ''callbacks''
                   (JArr (map (answer_prompt ''driver@example.com'' ''s3cret'') ?cbs))"
    using T a s by simp
  have n: "\<not> wf_prompt name_prompt_no_output"
    by (simp add: prompt_defs name_prompt_no_output_def)
  then have "\<not> (\<forall>cb \<in> set ?odd. wf_prompt cb)" by simp
  from fill_callbacks_prompts [OF g' u p, of asking_env 0, THEN conjunct2, THEN mp, OF this]
  obtain e where e: "fill_callbacks ''driver@example.com'' ''s3cret'' ?odd_data = Inl e"
    "challenge_loop asking_env (Suc 0) ?odd_data demo_world = (Inl e, demo_world)"
    by blast
  have "fill_callbacks ''driver@example.com'' ''s3cret'' ?odd_data = Inl (KeyError ''output'')"
    by (simp add: fill_callbacks_def fill_callback_def is_username_prompt_def text_prompt_def
        name_prompt_no_output_def)
  with e have 3: "challenge_loop asking_env (Suc 0) ?odd_data demo_world
       = (Inl (KeyError ''output''), demo_world)"
    by simp
  have 4: "wf_prompt name_prompt \<and> wf_prompt password_prompt \<and> wf_prompt text_prompt
      \<and> declares_username name_prompt \<and> is_password_prompt password_prompt"
    by (simp add: prompt_defs name_prompt_def password_prompt_def text_prompt_def)
  show ?thesis
    using 1 2 3 4 n unfolding v by blast
qed

theorem fill_callbacks_no_output_counterexample:
  "prompt_type name_prompt_no_output = Some (JStr ''NameCallback'')
   \<and> first_slot name_prompt_no_output ''input''
       = Some [(''name'', JStr ''IDToken1''), (''value'', JStr [])]
   \<and> (\<forall>k. responses odd_prompt_env k
            = ok_json (JObj [(''authId'', JStr ''a1''),
                             (''callbacks'', JArr [text_prompt, name_prompt_no_output])]))
   \<and> fill_callbacks ''driver@example.com'' ''s3cret''
        (JObj [(''authId'', JStr ''a1''), (''callbacks'', JArr [text_prompt, name_prompt_no_output])])
       = Inl (KeyError ''output'')
   \<and> update_token odd_prompt_env demo_world
       = (Inl (KeyError ''output''),
          demo_world\<lparr>sent := [authenticate_request (self demo_world) (JObj [])]\<rparr>)
   \<and> rq_json (authenticate_request (self demo_world) (JObj [])) = JObj []"
proof -
  let ?odd_data = "JObj [(''authId'', JStr ''a1''),
                         (''callbacks'', JArr [text_prompt, name_prompt_no_output])]"
  let ?resp = "\<lparr> status_code = 200, resp_text = ''(json)'', json_body = Inr ?odd_data,
                  location = None \<rparr>"
  let ?w1 = "demo_world\<lparr>sent := sent demo_world @ [authenticate_request (self demo_world) (JObj [])]\<rparr>"
  have f: "fill_callbacks (username (self ?w1)) (password (self ?w1)) ?odd_data
             = Inl (KeyError ''output'')"
    by (simp add: fill_callbacks_def fill_callback_def is_username_prompt_def text_prompt_def
        name_prompt_no_output_def)
  have f': "fill_callbacks ''driver@example.com'' ''s3cret'' ?odd_data = Inl (KeyError ''output'')"
    by (simp add: fill_callbacks_def fill_callback_def is_username_prompt_def text_prompt_def
        name_prompt_no_output_def)
  have "challenge_loop odd_prompt_env (Suc 9) (JObj []) demo_world
          = challenge_loop odd_prompt_env 9 ?odd_data ?w1"
    by (rule challenge_loop_continue [where resp = ?resp])
      (simp_all add: odd_prompt_env_def ok_json_def fill_callbacks_def)
  moreover have "challenge_loop odd_prompt_env (Suc 8) ?odd_data ?w1 = (Inl (KeyError ''output''), ?w1)"
    using f by (rule challenge_loop_unfillable)
  moreover have "Suc 9 = 10" "Suc 8 = 9" by simp_all
  ultimately have "challenge_loop odd_prompt_env 10 (JObj []) demo_world
                     = (Inl (KeyError ''output''), ?w1)"
    by simp
  then have "update_token odd_prompt_env demo_world = (Inl (KeyError ''output''), ?w1)"
    by (simp add: update_token_def)
  then show ?thesis
    using f'
    by (simp add: demo_world_def odd_prompt_env_def authenticate_request_def prompt_type_def
        first_slot_def name_prompt_no_output_def)
qed

section \<open>The round cap of the challenge loop\<close>

lemma fill_callbacks_empty [simp]: "fill_callbacks u p (JObj []) = Inr (JObj [])"
  by (simp add: fill_callbacks_def)

lemma challenge_loop_rejected:
  assumes "\<forall>k<m. round_continues E (self w) (length (sent w) + k)"
    and "fill_callbacks (username (self w)) (password (self w)) data = Inr d1"
    and "responses E (length (sent w) + m) = Inr resp"
    and "status_code resp \<noteq> 200"
    and "m < n"
  shows "\<exists>ys. challenge_loop E n data w
              = (Inl (ToyotaLoginError (''Authentication Failed. '' @ str_int (status_code resp)
                        @ '', '' @ resp_text resp @ ''.'')),
                 w\<lparr>sent := sent w @ ys\<rparr>) \<and> length ys = Suc m"
  using assms
proof (induction m arbitrary: data w d1 n)
  case 0
  let ?rq = "authenticate_request (self w) d1"
  from 0 obtain n' where n: "n = Suc n'" by (cases n) auto
  from 0 have "responses E (length (sent w)) = Inr resp" by simp
  with 0(2) have "challenge_loop E (Suc n') data w
      = (Inl (ToyotaLoginError (''Authentication Failed. '' @ str_int (status_code resp)
                        @ '', '' @ resp_text resp @ ''.'')), w\<lparr>sent := sent w @ [?rq]\<rparr>)"
    using 0(4) by (rule challenge_loop_status)
  with n show ?case by (intro exI [of _ "[?rq]"]) simp
next
  case (Suc m)
  let ?rq = "authenticate_request (self w) d1"
  let ?w1 = "w\<lparr>sent := sent w @ [?rq]\<rparr>"
  from Suc.prems(5) obtain n' where n: "n = Suc n'" "m < n'" by (cases n) auto
  from Suc.prems(1) have "round_continues E (self w) (length (sent w))"
    by (metis add.right_neutral zero_less_Suc)
  then obtain r d2 d3 where r: "responses E (length (sent w)) = Inr r" "status_code r = 200"
    "json_body r = Inr d2" "py_in ''tokenId'' d2 = Inr False"
    and f: "fill_callbacks (username (self w)) (password (self w)) d2 = Inr d3"
    by (auto simp: round_continues_def split: sum.splits)
  have eq: "challenge_loop E (Suc n') data w = challenge_loop E n' d2 ?w1"
    using Suc.prems(2) r by (rule challenge_loop_continue)
  have c: "\<forall>k<m. round_continues E (self ?w1) (length (sent ?w1) + k)"
  proof (intro allI impI)
    fix k assume "k < m"
    then have "round_continues E (self w) (length (sent w) + Suc k)"
      using Suc.prems(1) [rule_format, of "Suc k"] by simp
    then show "round_continues E (self ?w1) (length (sent ?w1) + k)" by simp
  qed
  have a: "responses E (length (sent ?w1) + m) = Inr resp"
    using Suc.prems(3) by simp
  from Suc.IH [OF c _ a Suc.prems(4) n(2), of d2 d3] f obtain ys where
    "challenge_loop E n' d2 ?w1
       = (Inl (ToyotaLoginError (''Authentication Failed. '' @ str_int (status_code resp)
                        @ '', '' @ resp_text resp @ ''.'')), ?w1\<lparr>sent := sent ?w1 @ ys\<rparr>)"
    "length ys = Suc m"
    by auto
  with eq n show ?case
    by (intro exI [of _ "?rq # ys"]) simp
qed

lemma update_token_exhausted:
  assumes "\<forall>k<10. round_continues E (self w) (length (sent w) + k)"
  shows "\<exists>ys. update_token E w
            = (Inl (ToyotaLoginError ''Authentication Failed. Unknown method.''),
               w\<lparr>sent := sent w @ ys\<rparr>)
          \<and> length ys = 10
          \<and> (\<forall>rq \<in> set ys. rq_method rq = ''POST'' \<and> rq_url rq = authenticate_url (self w))"
proof -
  from challenge_loop_exhausts [OF assms, of "JObj []" "JObj []"] obtain d ys where
    l: "challenge_loop E 10 (JObj []) w = (Inr d, w\<lparr>sent := sent w @ ys\<rparr>)" "length ys = 10"
    "py_in ''tokenId'' d = Inr False"
    by auto
  from challenge_loop_frame [of E 10 "JObj []" w] l(1) obtain zs where
    "w\<lparr>sent := sent w @ ys\<rparr> = w\<lparr>sent := sent w @ zs\<rparr>"
    "\<forall>rq \<in> set zs. rq_method rq = ''POST'' \<and> rq_url rq = authenticate_url (self w)"
    by auto
  moreover from this(1) have "sent (w\<lparr>sent := sent w @ ys\<rparr>) = sent (w\<lparr>sent := sent w @ zs\<rparr>)"
    by (rule arg_cong)
  then have "ys = zs" by simp
  ultimately have "\<forall>rq \<in> set ys. rq_method rq = ''POST'' \<and> rq_url rq = authenticate_url (self w)"
    by simp
  with l show ?thesis by (intro exI [of _ ys]) (simp add: update_token_def)
qed

text \<open>
  C3. The claim: for every sequence of challenge responses that never contains
  \<^verbatim>\<open>tokenId\<close>, the loop makes at most 10 POSTs and then fails with
  \<^verbatim>\<open>ToyotaLoginError("Authentication Failed. Unknown method.")\<close>. As amended: whatever
  the server answers, the loop makes at most 10 POSTs; when each of the ten answers has
  status 200 and a JSON body without \<^verbatim>\<open>tokenId\<close> whose prompts can be filled, the login
  makes exactly 10 POSTs, all to the authenticate URL, and fails with that error, the
  controller unchanged; when the answer number \<open>m + 1 \<le> 10\<close> is the first to contain
  \<^verbatim>\<open>tokenId\<close>, the loop ends with that answer after \<open>m + 1\<close> POSTs; and when the answer
  number \<open>m + 1 \<le> 10\<close> is the first whose status is not 200, the login fails after
  \<open>m + 1\<close> POSTs with \<^verbatim>\<open>ToyotaLoginError\<close> carrying that status and body.
\<close>

theorem challenge_loop_round_cap:
  "(\<exists>ys. snd (challenge_loop E 10 (JObj []) w) = w\<lparr>sent := sent w @ ys\<rparr> \<and> length ys \<le> 10)
   \<and> ((\<forall>k<10. round_continues E (self w) (length (sent w) + k)) \<longrightarrow>
        (\<exists>ys. update_token E w
                 = (Inl (ToyotaLoginError ''Authentication Failed. Unknown method.''),
                    w\<lparr>sent := sent w @ ys\<rparr>)
              \<and> length ys = 10
              \<and> (\<forall>rq \<in> set ys. rq_method rq = ''POST'' \<and> rq_url rq = authenticate_url (self w))))
   \<and> (\<forall>m d. m < 10 \<and> (\<forall>k<m. round_continues E (self w) (length (sent w) + k))
              \<and> answers_token_id E (length (sent w) + m) d \<longrightarrow>
        (\<exists>ys. challenge_loop E 10 (JObj []) w = (Inr d, w\<lparr>sent := sent w @ ys\<rparr>)
              \<and> length ys = Suc m))
   \<and> (\<forall>m resp. m < 10 \<and> (\<forall>k<m. round_continues E (self w) (length (sent w) + k))
              \<and> responses E (length (sent w) + m) = Inr resp \<and> status_code resp \<noteq> 200 \<longrightarrow>
        (\<exists>ys. update_token E w
                 = (Inl (ToyotaLoginError (''Authentication Failed. '' @ str_int (status_code resp)
                           @ '', '' @ resp_text resp @ ''.'')),
                    w\<lparr>sent := sent w @ ys\<rparr>)
              \<and> length ys = Suc m))"
proof (intro conjI allI impI)
  show "\<exists>ys. snd (challenge_loop E 10 (JObj []) w) = w\<lparr>sent := sent w @ ys\<rparr> \<and> length ys \<le> 10"
    using challenge_loop_frame [of E 10 "JObj []" w] by blast
next
  assume "\<forall>k<10. round_continues E (self w) (length (sent w) + k)"
  then show "\<exists>ys. update_token E w
                 = (Inl (ToyotaLoginError ''Authentication Failed. Unknown method.''),
                    w\<lparr>sent := sent w @ ys\<rparr>)
              \<and> length ys = 10
              \<and> (\<forall>rq \<in> set ys. rq_method rq = ''POST'' \<and> rq_url rq = authenticate_url (self w))"
    by (rule update_token_exhausted)
next
  fix m d
  assume a: "m < 10 \<and> (\<forall>k<m. round_continues E (self w) (length (sent w) + k))
              \<and> answers_token_id E (length (sent w) + m) d"
  show "\<exists>ys. challenge_loop E 10 (JObj []) w = (Inr d, w\<lparr>sent := sent w @ ys\<rparr>)
              \<and> length ys = Suc m"
    using challenge_loop_early [of m E w "JObj []" "JObj []" d 10] a by simp
next
  fix m resp
  assume a: "m < 10 \<and> (\<forall>k<m. round_continues E (self w) (length (sent w) + k))
              \<and> responses E (length (sent w) + m) = Inr resp \<and> status_code resp \<noteq> 200"
  from challenge_loop_rejected [of m E w "JObj []" "JObj []" resp 10] a obtain ys where
    ys: "challenge_loop E 10 (JObj []) w
              = (Inl (ToyotaLoginError (''Authentication Failed. '' @ str_int (status_code resp)
                        @ '', '' @ resp_text resp @ ''.'')),
                 w\<lparr>sent := sent w @ ys\<rparr>)" "length ys = Suc m"
    by auto
  show "\<exists>ys. update_token E w
                 = (Inl (ToyotaLoginError (''Authentication Failed. '' @ str_int (status_code resp)
                           @ '', '' @ resp_text resp @ ''.'')),
                    w\<lparr>sent := sent w @ ys\<rparr>)
              \<and> length ys = Suc m"
    by (intro exI [of _ ys]) (simp add: update_token_def ys)
qed

lemma asking_env_continues: "round_continues asking_env (self demo_world) k"
  by (simp add: round_continues_def asking_env_def ok_json_def fill_callbacks_def fill_callback_def
      is_username_prompt_def text_prompt_def)

lemma demo_env_rounds:
  "round_continues demo_env (self demo_world) 0"
  "round_continues demo_env (self demo_world) (Suc 0)"
  "answers_token_id demo_env 2 (JObj [(''tokenId'', JStr ''tok1'')])"
  by (simp_all add: round_continues_def answers_token_id_def demo_env_def login_script_def ok_json_def
      fill_callbacks_def fill_callback_def is_username_prompt_def set_input_value_def
      text_prompt_def name_prompt_def password_prompt_def)

lemma failing_env_status:
  "responses failing_env k = server_error"
  by (simp add: failing_env_def)

lemma str_int_500: "str_int 500 = ''500''"
  by (simp add: str_int_def str_nat.simps)


theorem challenge_loop_round_cap_witness:
  "(\<forall>k. round_continues asking_env (self demo_world) k)
   \<and> (\<exists>ys. update_token asking_env demo_world
              = (Inl (ToyotaLoginError ''Authentication Failed. Unknown method.''),
                 demo_world\<lparr>sent := ys\<rparr>)
           \<and> length ys = 10)
   \<and> round_continues demo_env (self demo_world) 0
   \<and> round_continues demo_env (self demo_world) (Suc 0)
   \<and> answers_token_id demo_env 2 (JObj [(''tokenId'', JStr ''tok1'')])
   \<and> (\<exists>ys. challenge_loop demo_env 10 (JObj []) demo_world
              = (Inr (JObj [(''tokenId'', JStr ''tok1'')]), demo_world\<lparr>sent := ys\<rparr>)
           \<and> length ys = 3)
   \<and> responses failing_env 0 = server_error
   \<and> (\<exists>ys. update_token failing_env demo_world
              = (Inl (ToyotaLoginError ''Authentication Failed. 500, Internal Server Error.''),
                 demo_world\<lparr>sent := ys\<rparr>)
           \<and> length ys = 1)"
proof -
  have s: "sent demo_world = []" by (simp add: demo_world_def)
  have a: "\<forall>k<10. round_continues asking_env (self demo_world) (length (sent demo_world) + k)"
    by (simp add: asking_env_continues)
  have 1: "\<exists>ys. update_token asking_env demo_world
              = (Inl (ToyotaLoginError ''Authentication Failed. Unknown method.''),
                 demo_world\<lparr>sent := ys\<rparr>)
           \<and> length ys = 10"
    using challenge_loop_round_cap [of asking_env demo_world, THEN conjunct2, THEN conjunct1] a s
    by auto
  have b: "(2::nat) < 10 \<and> (\<forall>k<2. round_continues demo_env (self demo_world) (length (sent demo_world) + k))
      \<and> answers_token_id demo_env (length (sent demo_world) + 2) (JObj [(''tokenId'', JStr ''tok1'')])"
    using demo_env_rounds s by (simp add: less_Suc_eq numeral_2_eq_2)
  have 2: "\<exists>ys. challenge_loop demo_env 10 (JObj []) demo_world
              = (Inr (JObj [(''tokenId'', JStr ''tok1'')]), demo_world\<lparr>sent := ys\<rparr>)
           \<and> length ys = 3"
    using challenge_loop_round_cap [of demo_env demo_world, THEN conjunct2, THEN conjunct2,
        THEN conjunct1, rule_format, OF b] s
    by (simp add: numeral_3_eq_3)
  have c: "(0::nat) < 10 \<and> (\<forall>k<0. round_continues failing_env (self demo_world) (length (sent demo_world) + k))
      \<and> responses failing_env (length (sent demo_world) + 0)
          = Inr \<lparr> status_code = 500, resp_text = ''Internal Server Error'',
                  json_body = Inr (JObj [(''message'', JStr ''Internal Server Error'')]),
                  location = None \<rparr>
      \<and> status_code \<lparr> status_code = 500, resp_text = ''Internal Server Error'',
                  json_body = Inr (JObj [(''message'', JStr ''Internal Server Error'')]),
                  location = None \<rparr> \<noteq> 200"
    by (simp add: failing_env_def server_error_def)
  have 3: "\<exists>ys. update_token failing_env demo_world
              = (Inl (ToyotaLoginError ''Authentication Failed. 500, Internal Server Error.''),
                 demo_world\<lparr>sent := ys\<rparr>)
           \<and> length ys = 1"
    using challenge_loop_round_cap [of failing_env demo_world, THEN conjunct2, THEN conjunct2,
        THEN conjunct2, rule_format, OF c] s
    by (simp add: str_int_500)
  show ?thesis
    using 1 2 3 asking_env_continues demo_env_rounds failing_env_status by simp
qed

theorem challenge_loop_error_status_counterexample:
  "(\<forall>k. responses failing_env k = server_error)
   \<and> server_error = Inr \<lparr> status_code = 500, resp_text = ''Internal Server Error'',
                  json_body = Inr (JObj [(''message'', JStr ''Internal Server Error'')]),
                  location = None \<rparr>
   \<and> py_in ''tokenId'' (JObj [(''message'', JStr ''Internal Server Error'')]) = Inr False
   \<and> update_token failing_env demo_world
       = (Inl (ToyotaLoginError ''Authentication Failed. 500, Internal Server Error.''),
          demo_world\<lparr>sent := [authenticate_request (self demo_world) (JObj [])]\<rparr>)
   \<and> fst (update_token failing_env demo_world)
       \<noteq> Inl (ToyotaLoginError ''Authentication Failed. Unknown method.'')"
proof -
  let ?resp = "\<lparr> status_code = 500, resp_text = ''Internal Server Error'',
                  json_body = Inr (JObj [(''message'', JStr ''Internal Server Error'')]),
                  location = None \<rparr>"
  have "challenge_loop failing_env (Suc 9) (JObj []) demo_world
      = (Inl (ToyotaLoginError (''Authentication Failed. '' @ str_int (status_code ?resp)
                     @ '', '' @ resp_text ?resp @ ''.'')),
         demo_world\<lparr>sent := sent demo_world @ [authenticate_request (self demo_world) (JObj [])]\<rparr>)"
    by (rule challenge_loop_status) (simp_all add: failing_env_def server_error_def)
  moreover have "Suc 9 = 10" by simp
  ultimately have "challenge_loop failing_env 10 (JObj []) demo_world
      = (Inl (ToyotaLoginError ''Authentication Failed. 500, Internal Server Error.''),
         demo_world\<lparr>sent := [authenticate_request (self demo_world) (JObj [])]\<rparr>)"
    by (simp add: str_int_500 demo_world_def)
  then show ?thesis
    by (simp add: update_token_def failing_env_status server_error_def)
qed

section \<open>The token exchange\<close>

lemma py_getitem_error: "py_getitem j k = Inl e \<Longrightarrow> e = KeyError k \<or> e = TypeError"
  by (cases j) (auto split: option.splits)

lemma timedelta_seconds_error: "timedelta_seconds v = Inl e \<Longrightarrow> e = TypeError \<or> e = OverflowError"
  by (cases v) (auto simp: timedelta_seconds_def split: if_splits)

lemma datetime_add_error: "datetime_add t d = Inl e \<Longrightarrow> e = OverflowError"
  by (auto simp: datetime_add_def split: if_splits)

lemma store_tokens_no_login_error: "fst (store_tokens E access_tokens w) \<noteq> Inl (ToyotaLoginError m)"
  by (auto simp: store_tokens_def Let_def now_def split: sum.splits
      dest!: py_getitem_error timedelta_seconds_error datetime_add_error)

lemma tokens_missing_object:
  "tokens_missing (JObj kvs)
     = Inr (\<not> (''access_token'' \<in> fst ` set kvs \<and> ''id_token'' \<in> fst ` set kvs
               \<and> ''refresh_token'' \<in> fst ` set kvs \<and> ''expires_in'' \<in> fst ` set kvs))"
  by (simp add: tokens_missing_def split: bool.split)

lemma store_tokens_success:
  assumes "py_getitem access_tokens ''access_token'' = Inr a"
    and "py_getitem access_tokens ''refresh_token'' = Inr r"
    and "py_getitem access_tokens ''id_token'' = Inr i"
    and "jwt_decode E i = Inr claims"
    and "py_getitem claims ''uuid'' = Inr u"
    and "py_getitem access_tokens ''expires_in'' = Inr (JInt n)"
    and "- 999999999 \<le> n div 86400" and "n div 86400 \<le> 999999999"
    and "0 \<le> clock E (ticks w) + n * 1000000"
    and "clock E (ticks w) + n * 1000000 < 3652059 * 86400 * 1000000"
  shows "store_tokens E access_tokens w
           = (Inr (), w\<lparr>ticks := Suc (ticks w),
                self := (self w)\<lparr>token := a, refresh_token := r, uuid := u,
                          token_expiration := Some (clock E (ticks w) + n * 1000000)\<rparr>\<rparr>)"
  using assms by (simp add: store_tokens_def Let_def now_def timedelta_seconds_def datetime_add_def)

lemma retrieve_tokens_answered:
  assumes "responses E (length (sent w)) = Inr resp" and "status_code resp = 200"
    and "json_body resp = Inr access_tokens"
  shows "retrieve_tokens E code w =
     (case tokens_missing access_tokens of
        Inl e \<Rightarrow> (Inl e, w\<lparr>sent := sent w @ [token_request (self w) code]\<rparr>)
      | Inr True \<Rightarrow>
          (Inl (ToyotaLoginError (''Token retrieval failed. Missing Tokens. ''
                 @ str_int (status_code resp) @ '', '' @ resp_text resp @ ''.'')),
           w\<lparr>sent := sent w @ [token_request (self w) code]\<rparr>)
      | Inr False \<Rightarrow> store_tokens E access_tokens (w\<lparr>sent := sent w @ [token_request (self w) code]\<rparr>))"
  using assms by (simp add: retrieve_tokens_def send_def)

text \<open>
  C4. The claim: the token exchange fails with the missing-tokens error exactly when one of
  \<^verbatim>\<open>access_token\<close>, \<^verbatim>\<open>id_token\<close>, \<^verbatim>\<open>refresh_token\<close>, \<^verbatim>\<open>expires_in\<close> is absent, and
  succeeds when all four are present and the identity token carries \<^verbatim>\<open>uuid\<close>. As
  amended: when the token endpoint answers 200 with a JSON object, the exchange fails
  with a \<^verbatim>\<open>ToyotaLoginError\<close> exactly when one of the four keys is absent, the error is
  then the missing-tokens one and the controller is unchanged; when the four are
  present, the identity token decodes to claims with \<^verbatim>\<open>uuid\<close>, and \<^verbatim>\<open>expires_in\<close> is
  an integer that \<^verbatim>\<open>timedelta\<close> and the datetime range accept, the exchange succeeds,
  stores the access token, the refresh token and the uuid, and sets the expiry to the
  clock reading plus \<^verbatim>\<open>expires_in\<close> seconds.
\<close>

theorem token_exchange_outcome:
  assumes "responses E (length (sent w)) = Inr resp" and "status_code resp = 200"
    and "json_body resp = Inr (JObj kvs)"
  shows "((\<exists>m. fst (retrieve_tokens E code w) = Inl (ToyotaLoginError m))
            = (\<not> (''access_token'' \<in> fst ` set kvs \<and> ''id_token'' \<in> fst ` set kvs
                  \<and> ''refresh_token'' \<in> fst ` set kvs \<and> ''expires_in'' \<in> fst ` set kvs)))
       \<and> (\<forall>m. fst (retrieve_tokens E code w) = Inl (ToyotaLoginError m) \<longrightarrow>
              m = ''Token retrieval failed. Missing Tokens. '' @ str_int (status_code resp)
                    @ '', '' @ resp_text resp @ ''.''
              \<and> snd (retrieve_tokens E code w) = w\<lparr>sent := sent w @ [token_request (self w) code]\<rparr>)
       \<and> (\<forall>a i r n claims u.
             map_of kvs ''access_token'' = Some a \<and> map_of kvs ''id_token'' = Some i
             \<and> map_of kvs ''refresh_token'' = Some r \<and> map_of kvs ''expires_in'' = Some (JInt n)
             \<and> jwt_decode E i = Inr claims \<and> py_getitem claims ''uuid'' = Inr u
             \<and> - 999999999 \<le> n div 86400 \<and> n div 86400 \<le> 999999999
             \<and> 0 \<le> clock E (ticks w) + n * 1000000
             \<and> clock E (ticks w) + n * 1000000 < 3652059 * 86400 * 1000000 \<longrightarrow>
             retrieve_tokens E code w
               = (Inr (), w\<lparr>sent := sent w @ [token_request (self w) code],
                    ticks := Suc (ticks w),
                    self := (self w)\<lparr>token := a, refresh_token := r, uuid := u,
                              token_expiration := Some (clock E (ticks w) + n * 1000000)\<rparr>\<rparr>))"
proof (intro conjI allI impI)
  let ?w1 = "w\<lparr>sent := sent w @ [token_request (self w) code]\<rparr>"
  let ?all = "''access_token'' \<in> fst ` set kvs \<and> ''id_token'' \<in> fst ` set kvs
                  \<and> ''refresh_token'' \<in> fst ` set kvs \<and> ''expires_in'' \<in> fst ` set kvs"
  let ?msg = "''Token retrieval failed. Missing Tokens. ''
                 @ str_int (status_code resp) @ '', '' @ resp_text resp @ ''.''"
  have missing: "\<not> ?all \<Longrightarrow> retrieve_tokens E code w = (Inl (ToyotaLoginError ?msg), ?w1)"
    using retrieve_tokens_answered [OF assms, of code] by (simp add: tokens_missing_object)
  have present: "?all \<Longrightarrow> retrieve_tokens E code w = store_tokens E (JObj kvs) ?w1"
    using retrieve_tokens_answered [OF assms, of code] by (simp add: tokens_missing_object)
  have none: "?all \<Longrightarrow> fst (retrieve_tokens E code w) \<noteq> Inl (ToyotaLoginError m)" for m
    using present store_tokens_no_login_error [of E "JObj kvs" ?w1 m] by simp
  show "(\<exists>m. fst (retrieve_tokens E code w) = Inl (ToyotaLoginError m)) = (\<not> ?all)"
  proof (cases ?all)
    case True
    with none show ?thesis by blast
  next
    case False
    with missing [OF False] show ?thesis by simp
  qed
  {
    fix m assume m: "fst (retrieve_tokens E code w) = Inl (ToyotaLoginError m)"
    with none have "\<not> ?all" by blast
    from missing [OF this] m
    show "m = ''Token retrieval failed. Missing Tokens. '' @ str_int (status_code resp)
                    @ '', '' @ resp_text resp @ ''.''"
      and "snd (retrieve_tokens E code w) = ?w1"
      by simp_all
  }
  {
    fix a i r n claims u
    assume h: "map_of kvs ''access_token'' = Some a \<and> map_of kvs ''id_token'' = Some i
             \<and> map_of kvs ''refresh_token'' = Some r \<and> map_of kvs ''expires_in'' = Some (JInt n)
             \<and> jwt_decode E i = Inr claims \<and> py_getitem claims ''uuid'' = Inr u
             \<and> - 999999999 \<le> n div 86400 \<and> n div 86400 \<le> 999999999
             \<and> 0 \<le> clock E (ticks w) + n * 1000000
             \<and> clock E (ticks w) + n * 1000000 < 3652059 * 86400 * 1000000"
    then have ?all
      by (auto dest!: map_of_SomeD intro: rev_image_eqI)
    then have "retrieve_tokens E code w = store_tokens E (JObj kvs) ?w1" by (rule present)
    also have "\<dots> = (Inr (), ?w1\<lparr>ticks := Suc (ticks ?w1),
                self := (self ?w1)\<lparr>token := a, refresh_token := r, uuid := u,
                          token_expiration := Some (clock E (ticks ?w1) + n * 1000000)\<rparr>\<rparr>)"
      using h by (intro store_tokens_success [where i = i and claims = claims]) simp_all
    finally show "retrieve_tokens E code w
               = (Inr (), w\<lparr>sent := sent w @ [token_request (self w) code],
                    ticks := Suc (ticks w),
                    self := (self w)\<lparr>token := a, refresh_token := r, uuid := u,
                              token_expiration := Some (clock E (ticks w) + n * 1000000)\<rparr>\<rparr>)"
      by simp
  }
qed

section \<open>A scripted login\<close>

lemma authorise_redirect:
  assumes "py_getitem data ''tokenId'' = Inr tid"
    and "responses E (length (sent w)) = Inr resp" and "status_code resp = 302"
    and "parse_qs_location E (location resp) = Inr q" and "map_of q ''code'' = Some code"
  shows "authorise E data w = (Inr code, w\<lparr>sent := sent w @ [authorize_request E (self w) tid]\<rparr>)"
  using assms by (simp add: authorise_def send_def)

lemma authorise_no_code:
  assumes "py_getitem data ''tokenId'' = Inr tid"
    and "responses E (length (sent w)) = Inr resp" and "status_code resp = 302"
    and "parse_qs_location E (location resp) = Inr q" and "map_of q ''code'' = None"
  shows "authorise E data w
           = (Inl (KeyError ''code''), w\<lparr>sent := sent w @ [authorize_request E (self w) tid]\<rparr>)"
  using assms by (simp add: authorise_def send_def)

lemma authorise_not_redirect:
  assumes "py_getitem data ''tokenId'' = Inr tid"
    and "responses E (length (sent w)) = Inr resp" and "status_code resp \<noteq> 302"
  shows "authorise E data w
           = (Inl (ToyotaLoginError (''Authorization failed. '' @ str_int (status_code resp)
                     @ '', '' @ resp_text resp @ ''.'')),
              w\<lparr>sent := sent w @ [authorize_request E (self w) tid]\<rparr>)"
  using assms by (simp add: authorise_def send_def)

lemma update_token_after_loop:
  assumes "challenge_loop E 10 (JObj []) w = (Inr data, w1)" and "py_in ''tokenId'' data = Inr True"
  shows "update_token E w =
           (case authorise E data w1 of
              (Inl e, w2) \<Rightarrow> (Inl e, w2)
            | (Inr code, w2) \<Rightarrow> retrieve_tokens E code w2)"
  using assms by (simp add: update_token_def)

text \<open>The challenge rounds of the scripted server, for every environment that follows the script.\<close>

lemma scripted_rounds_from:
  assumes "\<forall>k<3. responses E k = login_script e api k" and "sent w = []"
  shows "\<exists>rqs. length rqs = 3
           \<and> challenge_loop E 10 (JObj []) w
               = (Inr (JObj [(''tokenId'', JStr ''tok1'')]), w\<lparr>sent := rqs\<rparr>)"
proof -
  have r: "responses E 0 = login_script e api 0" "responses E (Suc 0) = login_script e api (Suc 0)"
    "responses E (Suc (Suc 0)) = login_script e api 2"
    using assms(1) by (simp_all add: numeral_2_eq_2 [symmetric])
  note s = assms(2)
  have c: "\<forall>k<2. round_continues E (self w) (length (sent w) + k)"
    using r by (simp add: less_Suc_eq numeral_2_eq_2 s round_continues_def login_script_def ok_json_def
        fill_callbacks_def fill_callback_def is_username_prompt_def set_input_value_def
        text_prompt_def name_prompt_def password_prompt_def)
  have a: "answers_token_id E (length (sent w) + 2) (JObj [(''tokenId'', JStr ''tok1'')])"
    using r by (simp add: s answers_token_id_def login_script_def ok_json_def)
  from challenge_loop_early [OF c _ a, of "JObj []" "JObj []" 10] obtain ys where
    "challenge_loop E 10 (JObj []) w
       = (Inr (JObj [(''tokenId'', JStr ''tok1'')]), w\<lparr>sent := sent w @ ys\<rparr>)"
    "length ys = Suc 2"
    by auto
  then show ?thesis by (intro exI [of _ ys]) (simp add: s)
qed

lemma scripted_rounds:
  assumes "\<forall>k<3. responses E k = login_script e api k"
  shows "\<exists>rqs. length rqs = 3
           \<and> challenge_loop E 10 (JObj []) demo_world
               = (Inr (JObj [(''tokenId'', JStr ''tok1'')]), demo_world\<lparr>sent := rqs\<rparr>)"
  using assms by (rule scripted_rounds_from) (simp add: demo_world_def)

lemma scripted_authorise_from:
  assumes "\<forall>k<4. responses E k = login_script e api k"
    and "parse_qs_location E = parse_qs_location demo_env"
    and "sent w = []"
  shows "\<exists>rqs. length rqs = 4
           \<and> update_token E w = retrieve_tokens E [''c0de''] (w\<lparr>sent := rqs\<rparr>)"
proof -
  from assms(1) have "\<forall>k<3. responses E k = login_script e api k" by simp
  from scripted_rounds_from [OF this assms(3)] obtain rqs where
    rqs: "length rqs = 3" "challenge_loop E 10 (JObj []) w
               = (Inr (JObj [(''tokenId'', JStr ''tok1'')]), w\<lparr>sent := rqs\<rparr>)"
    by blast
  let ?w1 = "w\<lparr>sent := rqs\<rparr>"
  let ?rq = "authorize_request E (self ?w1) (JStr ''tok1'')"
  have "responses E 3 = login_script e api 3" using assms(1) by simp
  then have "authorise E (JObj [(''tokenId'', JStr ''tok1'')]) ?w1
      = (Inr [''c0de''], ?w1\<lparr>sent := sent ?w1 @ [?rq]\<rparr>)"
    by (intro authorise_redirect [where resp = "\<lparr> status_code = 302, resp_text = [],
            json_body = Inl ''JSONDecodeError'',
            location = Some ''com.toyota.oneapp:/oauth2Callback?code=c0de'' \<rparr>"
          and q = "[(''code'', [''c0de''])]"])
      (simp_all add: rqs assms(2) login_script_def redirect_to_def demo_env_def)
  with update_token_after_loop [OF rqs(2)] have
    "update_token E w = retrieve_tokens E [''c0de''] (?w1\<lparr>sent := sent ?w1 @ [?rq]\<rparr>)"
    by simp
  then show ?thesis by (intro exI [of _ "rqs @ [?rq]"]) (simp add: rqs)
qed

lemma scripted_authorise:
  assumes "\<forall>k<4. responses E k = login_script e api k"
    and "parse_qs_location E = parse_qs_location demo_env"
  shows "\<exists>rqs. length rqs = 4
           \<and> update_token E demo_world = retrieve_tokens E [''c0de''] (demo_world\<lparr>sent := rqs\<rparr>)"
  using assms by (rule scripted_authorise_from) (simp add: demo_world_def)

lemma scripted_login:
  assumes "\<forall>k<5. responses E k = login_script (JInt 3600) api k"
    and "parse_qs_location E = parse_qs_location demo_env"
    and "jwt_decode E = jwt_decode demo_env" and "clock E = clock demo_env"
  shows "\<exists>rqs. length rqs = 5
           \<and> update_token E demo_world
               = (Inr (), demo_world\<lparr>sent := rqs, ticks := 1, self := demo_session\<rparr>)"
proof -
  from assms(1) have "\<forall>k<4. responses E k = login_script (JInt 3600) api k" by simp
  from scripted_authorise [OF this assms(2)] obtain rqs where
    rqs: "length rqs = 4"
    "update_token E demo_world = retrieve_tokens E [''c0de''] (demo_world\<lparr>sent := rqs\<rparr>)"
    by blast
  let ?w = "demo_world\<lparr>sent := rqs\<rparr>"
  let ?w1 = "?w\<lparr>sent := sent ?w @ [token_request (self ?w) [''c0de'']]\<rparr>"
  have "responses E 4 = login_script (JInt 3600) api 4" using assms(1) by simp
  then have "retrieve_tokens E [''c0de''] ?w = store_tokens E (token_body (JInt 3600)) ?w1"
    using retrieve_tokens_answered [of E ?w "\<lparr> status_code = 200, resp_text = ''(json)'',
        json_body = Inr (token_body (JInt 3600)), location = None \<rparr>" "token_body (JInt 3600)" "[''c0de'']"]
    by (simp add: rqs login_script_def ok_json_def tokens_missing_def token_body_def)
  also have "\<dots> = (Inr (), ?w1\<lparr>ticks := Suc (ticks ?w1),
                self := (self ?w1)\<lparr>token := JStr ''AT'', refresh_token := JStr ''RT'', uuid := JStr ''u1'',
                          token_expiration := Some (clock E (ticks ?w1) + 3600 * 1000000)\<rparr>\<rparr>)"
    by (rule store_tokens_success [where i = "JStr ''IDT''" and claims = "JObj [(''uuid'', JStr ''u1'')]"])
      (simp_all add: token_body_def assms demo_env_def demo_world_def)
  finally have "retrieve_tokens E [''c0de''] ?w
      = (Inr (), demo_world\<lparr>sent := rqs @ [token_request (self demo_world) [''c0de'']],
                   ticks := 1, self := demo_session\<rparr>)"
    by (simp add: assms demo_env_def demo_world_def demo_session_def)
  with rqs show ?thesis
    by (intro exI [of _ "rqs @ [token_request (self demo_world) [''c0de'']]"]) simp
qed

lemma str_int_200: "str_int 200 = ''200''"
  by (simp add: str_int_def str_nat.simps)

section \<open>Runs of the token exchange\<close>

theorem token_exchange_outcome_witness:
  "(\<exists>rqs. length rqs = 4
      \<and> update_token demo_env demo_world = retrieve_tokens demo_env [''c0de''] (demo_world\<lparr>sent := rqs\<rparr>)
      \<and> responses demo_env (length rqs) = ok_json (token_body (JInt 3600))
      \<and> retrieve_tokens demo_env [''c0de''] (demo_world\<lparr>sent := rqs\<rparr>)
          = (Inr (), demo_world\<lparr>sent := rqs @ [token_request (self demo_world) [''c0de'']],
                       ticks := 1, self := demo_session\<rparr>))
   \<and> token demo_session = JStr ''AT'' \<and> refresh_token demo_session = JStr ''RT''
   \<and> token_expiration demo_session = Some (clock demo_env 0 + 3600 * 1000000)
   \<and> (\<exists>rqs. length rqs = 4
      \<and> update_token missing_env demo_world = retrieve_tokens missing_env [''c0de''] (demo_world\<lparr>sent := rqs\<rparr>)
      \<and> responses missing_env (length rqs) = ok_json (JObj [(''access_token'', JStr ''AT'')])
      \<and> retrieve_tokens missing_env [''c0de''] (demo_world\<lparr>sent := rqs\<rparr>)
          = (Inl (ToyotaLoginError ''Token retrieval failed. Missing Tokens. 200, (json).''),
             demo_world\<lparr>sent := rqs @ [token_request (self demo_world) [''c0de'']]\<rparr>))"
proof -
  have "\<forall>k<4. responses demo_env k = login_script (JInt 3600) (ok_json (JObj [(''payload'', JArr [])])) k"
    by (simp add: demo_env_def)
  from scripted_authorise [OF this refl] obtain rqs where
    rqs: "length rqs = 4"
    "update_token demo_env demo_world = retrieve_tokens demo_env [''c0de''] (demo_world\<lparr>sent := rqs\<rparr>)"
    by blast
  let ?w = "demo_world\<lparr>sent := rqs\<rparr>"
  let ?resp = "\<lparr> status_code = 200, resp_text = ''(json)'',
        json_body = Inr (token_body (JInt 3600)), location = None \<rparr>"
  let ?kvs = "[(''access_token'', JStr ''AT''), (''id_token'', JStr ''IDT''),
           (''refresh_token'', JStr ''RT''), (''expires_in'', JInt 3600)]"
  have a: "responses demo_env (length (sent ?w)) = Inr ?resp"
    by (simp add: rqs demo_env_def login_script_def ok_json_def)
  have b: "status_code ?resp = 200" by simp
  have c: "json_body ?resp = Inr (JObj ?kvs)" by (simp add: token_body_def)
  have h: "map_of ?kvs ''access_token'' = Some (JStr ''AT'') \<and> map_of ?kvs ''id_token'' = Some (JStr ''IDT'')
             \<and> map_of ?kvs ''refresh_token'' = Some (JStr ''RT'') \<and> map_of ?kvs ''expires_in'' = Some (JInt 3600)
             \<and> jwt_decode demo_env (JStr ''IDT'') = Inr (JObj [(''uuid'', JStr ''u1'')])
             \<and> py_getitem (JObj [(''uuid'', JStr ''u1'')]) ''uuid'' = Inr (JStr ''u1'')
             \<and> - 999999999 \<le> (3600::int) div 86400 \<and> (3600::int) div 86400 \<le> 999999999
             \<and> 0 \<le> clock demo_env (ticks ?w) + 3600 * 1000000
             \<and> clock demo_env (ticks ?w) + 3600 * 1000000 < 3652059 * 86400 * 1000000"
    by (simp add: demo_env_def demo_world_def)
  have 1: "retrieve_tokens demo_env [''c0de''] ?w
          = (Inr (), demo_world\<lparr>sent := rqs @ [token_request (self demo_world) [''c0de'']],
                       ticks := 1, self := demo_session\<rparr>)"
    using token_exchange_outcome [OF a b c, of "[''c0de'']", THEN conjunct2, THEN conjunct2,
        rule_format, OF h]
    by (simp add: demo_env_def demo_world_def demo_session_def)
  have "\<forall>k<4. responses missing_env k = login_script (JInt 3600) (ok_json (JObj [])) k"
    by (simp add: missing_env_def)
  moreover have "parse_qs_location missing_env = parse_qs_location demo_env"
    by (simp add: missing_env_def)
  ultimately obtain rqs' where
    rqs': "length rqs' = 4"
    "update_token missing_env demo_world = retrieve_tokens missing_env [''c0de''] (demo_world\<lparr>sent := rqs'\<rparr>)"
    using scripted_authorise by blast
  let ?w' = "demo_world\<lparr>sent := rqs'\<rparr>"
  let ?resp' = "\<lparr> status_code = 200, resp_text = ''(json)'',
        json_body = Inr (JObj [(''access_token'', JStr ''AT'')]), location = None \<rparr>"
  have a': "responses missing_env (length (sent ?w')) = Inr ?resp'"
    by (simp add: rqs' missing_env_def ok_json_def)
  have b': "status_code ?resp' = 200" by simp
  have c': "json_body ?resp' = Inr (JObj [(''access_token'', JStr ''AT'')])" by simp
  note T = token_exchange_outcome [OF a' b' c', of "[''c0de'']"]
  from T [THEN conjunct1] obtain m where
    m: "fst (retrieve_tokens missing_env [''c0de''] ?w') = Inl (ToyotaLoginError m)"
    by auto
  from T [THEN conjunct2, THEN conjunct1, rule_format, OF m]
  have "m = ''Token retrieval failed. Missing Tokens. 200, (json).''"
    and "snd (retrieve_tokens missing_env [''c0de''] ?w')
           = demo_world\<lparr>sent := rqs' @ [token_request (self demo_world) [''c0de'']]\<rparr>"
    by (simp_all add: str_int_200)
  with m have 2: "retrieve_tokens missing_env [''c0de''] ?w'
          = (Inl (ToyotaLoginError ''Token retrieval failed. Missing Tokens. 200, (json).''),
             demo_world\<lparr>sent := rqs' @ [token_request (self demo_world) [''c0de'']]\<rparr>)"
    by (simp add: prod_eq_iff)
  have 3: "token demo_session = JStr ''AT'' \<and> refresh_token demo_session = JStr ''RT''
   \<and> token_expiration demo_session = Some (clock demo_env 0 + 3600 * 1000000)"
    by (simp add: demo_session_def demo_env_def)
  have 4: "responses demo_env (length rqs) = ok_json (token_body (JInt 3600))"
    by (simp add: rqs demo_env_def login_script_def)
  have 5: "responses missing_env (length rqs') = ok_json (JObj [(''access_token'', JStr ''AT'')])"
    by (simp add: rqs' missing_env_def)
  show ?thesis
    using rqs 1 4 rqs' 2 5 3 by blast
qed

theorem token_exchange_string_expiry_counterexample:
  "responses string_expiry_env 4 = ok_json (token_body (JStr ''3600''))
   \<and> token_body (JStr ''3600'')
       = JObj [(''access_token'', JStr ''AT''), (''id_token'', JStr ''IDT''),
               (''refresh_token'', JStr ''RT''), (''expires_in'', JStr ''3600'')]
   \<and> tokens_missing (token_body (JStr ''3600'')) = Inr False
   \<and> jwt_decode string_expiry_env (JStr ''IDT'') = Inr (JObj [(''uuid'', JStr ''u1'')])
   \<and> fst (update_token string_expiry_env demo_world) = Inl TypeError"
proof -
  have "\<forall>k<4. responses string_expiry_env k = login_script (JStr ''3600'') (ok_json (JObj [])) k"
    by (simp add: string_expiry_env_def)
  moreover have "parse_qs_location string_expiry_env = parse_qs_location demo_env"
    by (simp add: string_expiry_env_def)
  ultimately obtain rqs where
    rqs: "length rqs = 4"
    "update_token string_expiry_env demo_world
       = retrieve_tokens string_expiry_env [''c0de''] (demo_world\<lparr>sent := rqs\<rparr>)"
    using scripted_authorise by blast
  let ?w = "demo_world\<lparr>sent := rqs\<rparr>"
  let ?w1 = "?w\<lparr>sent := sent ?w @ [token_request (self ?w) [''c0de'']]\<rparr>"
  have m: "tokens_missing (token_body (JStr ''3600'')) = Inr False"
    by (simp add: tokens_missing_def token_body_def)
  have "retrieve_tokens string_expiry_env [''c0de''] ?w
      = store_tokens string_expiry_env (token_body (JStr ''3600'')) ?w1"
    using retrieve_tokens_answered [of string_expiry_env ?w "\<lparr> status_code = 200, resp_text = ''(json)'',
        json_body = Inr (token_body (JStr ''3600'')), location = None \<rparr>"
        "token_body (JStr ''3600'')" "[''c0de'']"] m
    by (simp add: rqs string_expiry_env_def login_script_def ok_json_def)
  moreover have "fst (store_tokens string_expiry_env (token_body (JStr ''3600'')) ?w1) = Inl TypeError"
    by (simp add: store_tokens_def token_body_def string_expiry_env_def demo_env_def now_def
        timedelta_seconds_def)
  ultimately show ?thesis
    using rqs m by (simp add: string_expiry_env_def demo_env_def login_script_def token_body_def)
qed

section \<open>The authenticated request\<close>

lemma authorise_frame:
  "\<exists>ys. snd (authorise E data w) = w\<lparr>sent := sent w @ ys\<rparr>"
proof (cases "py_getitem data ''tokenId''")
  case (Inl e)
  then show ?thesis by (intro exI [of _ "[]"]) (simp add: authorise_def)
next
  case (Inr tid)
  then have "snd (authorise E data w) = w\<lparr>sent := sent w @ [authorize_request E (self w) tid]\<rparr>"
    by (simp add: authorise_def send_def split: sum.splits option.splits)
  then show ?thesis by blast
qed

lemma store_tokens_frame:
  "sent (snd (store_tokens E access_tokens w)) = sent w
   \<and> heap (snd (store_tokens E access_tokens w)) = heap w"
  by (simp add: store_tokens_def Let_def now_def split: sum.splits)

lemma retrieve_tokens_frame:
  "sent (snd (retrieve_tokens E code w)) = sent w @ [token_request (self w) code]
   \<and> heap (snd (retrieve_tokens E code w)) = heap w"
  by (simp add: retrieve_tokens_def send_def store_tokens_frame split: sum.splits bool.splits)

lemma update_token_heap [simp]: "heap (snd (update_token E w)) = heap w"
proof -
  obtain r w1 where l: "challenge_loop E 10 (JObj []) w = (r, w1)" by (cases "challenge_loop E 10 (JObj []) w")
  from challenge_loop_frame [of E 10 "JObj []" w] l have h1: "heap w1 = heap w" by auto
  show ?thesis
  proof (cases r)
    case (Inl e)
    with l h1 show ?thesis by (simp add: update_token_def)
  next
    case (Inr data)
    obtain r2 w2 where a: "authorise E data w1 = (r2, w2)" by (cases "authorise E data w1")
    from authorise_frame [of E data w1] a have h2: "heap w2 = heap w1" by auto
    show ?thesis
      using l Inr a h1 h2 retrieve_tokens_frame
      by (simp add: update_token_def split: sum.splits bool.splits)
  qed
qed

lemma ensure_session_heap [simp]: "heap (snd (ensure_session E w)) = heap w"
  by (simp add: ensure_session_def split: prod.splits)
    (metis is_token_valid_heap snd_conv update_token_heap)


lemma request_raw_issued:
  assumes "method \<in> set [''GET'', ''POST'', ''PUT'', ''DELETE'']"
    and "ensure_session E w = (Inr (), w1)"
  shows "request_raw E method endpoint vin body params headers w =
     (let h = merge_headers E (self w1) vin (case headers of None \<Rightarrow> [] | Some a \<Rightarrow> heap w1 a);
          w2 = (case headers of None \<Rightarrow> w1 | Some a \<Rightarrow> w1\<lparr>heap := (heap w1)(a := h)\<rparr>);
          w3 = w2\<lparr>sent := sent w2 @ [api_request (self w1) method endpoint h body params]\<rparr>
      in case responses E (length (sent w1)) of
           Inl x \<Rightarrow> (Inl (LibraryError x), w3)
         | Inr resp \<Rightarrow>
             if status_code resp = 200 \<or> status_code resp = 202 then (Inr resp, w3)
             else (Inl (ToyotaApiError (''Request Failed.  '' @ str_int (status_code resp)
                          @ '', '' @ resp_text resp @ ''.'')), w3))"
  using assms
  by (cases headers) (auto simp: request_raw_def Let_def send_def split: sum.splits)

text \<open>
  C5. Once \<^verbatim>\<open>request_raw\<close> has accepted the method and has a session (the token was
  valid, or the login succeeded), it hands exactly one call to the HTTP client, the
  authenticated request with the merged headers. When the answer has status 200 or 202,
  the answer itself is the result; for any other status the result is
  \<^verbatim>\<open>ToyotaApiError\<close> whose message holds the decimal status and the body text as
  received. Nothing else is sent and the controller is not touched: there is no retry.
\<close>

theorem request_raw_status:
  assumes "method \<in> set [''GET'', ''POST'', ''PUT'', ''DELETE'']"
    and "ensure_session E w = (Inr (), w1)"
    and "responses E (length (sent w1)) = Inr resp"
  shows "fst (request_raw E method endpoint vin body params headers w)
           = (if status_code resp = 200 \<or> status_code resp = 202 then Inr resp
              else Inl (ToyotaApiError (''Request Failed.  '' @ str_int (status_code resp)
                          @ '', '' @ resp_text resp @ ''.'')))
       \<and> sent (snd (request_raw E method endpoint vin body params headers w))
           = sent w1 @ [api_request (self w1) method endpoint
                          (merge_headers E (self w1) vin
                             (case headers of None \<Rightarrow> [] | Some a \<Rightarrow> heap w a))
                          body params]
       \<and> self (snd (request_raw E method endpoint vin body params headers w)) = self w1
       \<and> ticks (snd (request_raw E method endpoint vin body params headers w)) = ticks w1"
proof -
  have hw: "heap w1 = heap w"
    using ensure_session_heap [of E w] assms(2) by simp
  show ?thesis
    using request_raw_issued [OF assms(1,2), of endpoint vin body params headers] assms(3) hw
    by (cases headers) (simp_all add: Let_def)
qed







section \<open>Runs of the authenticated request\<close>

lemma demo_world_invalid: "is_token_valid E demo_world = (False, demo_world)"
  by (simp add: is_token_valid_def demo_world_def Controller_init_def)

lemma scripted_session:
  assumes "\<forall>k<5. responses E k = login_script (JInt 3600) api k"
    and "parse_qs_location E = parse_qs_location demo_env"
    and "jwt_decode E = jwt_decode demo_env" and "clock E = clock demo_env"
  shows "\<exists>rqs. length rqs = 5
           \<and> ensure_session E demo_world
               = (Inr (), demo_world\<lparr>sent := rqs, ticks := 1, self := demo_session\<rparr>)"
  using scripted_login [OF assms] by (simp add: ensure_session_def demo_world_invalid)

lemma get_is_allowed: "''GET'' \<in> set [''GET'', ''POST'', ''PUT'', ''DELETE'']"
  by simp

theorem request_raw_status_witness:
  "(\<exists>rqs. length rqs = 5
      \<and> ensure_session api_down_env demo_world
          = (Inr (), demo_world\<lparr>sent := rqs, ticks := 1, self := demo_session\<rparr>))
   \<and> responses api_down_env 5 = server_error
   \<and> fst (request_raw api_down_env ''GET'' ''/v1/vehicle'' None JNull JNull None demo_world)
       = Inl (ToyotaApiError ''Request Failed.  500, Internal Server Error.'')
   \<and> length (sent (snd (request_raw api_down_env ''GET'' ''/v1/vehicle'' None JNull JNull None
                         demo_world))) = 6
   \<and> (\<exists>rqs. length rqs = 5
      \<and> ensure_session demo_env demo_world
          = (Inr (), demo_world\<lparr>sent := rqs, ticks := 1, self := demo_session\<rparr>))
   \<and> fst (request_raw demo_env ''GET'' ''/v1/vehicle'' None JNull JNull None demo_world)
       = Inr \<lparr> status_code = 200, resp_text = ''(json)'',
               json_body = Inr (JObj [(''payload'', JArr [])]), location = None \<rparr>"
proof -
  have "\<exists>rqs. length rqs = 5
      \<and> ensure_session api_down_env demo_world
          = (Inr (), demo_world\<lparr>sent := rqs, ticks := 1, self := demo_session\<rparr>)"
    by (rule scripted_session [where api = server_error]) (simp_all add: api_down_env_def)
  then obtain rqs where rqs: "length rqs = 5"
    "ensure_session api_down_env demo_world
          = (Inr (), demo_world\<lparr>sent := rqs, ticks := 1, self := demo_session\<rparr>)"
    by blast
  let ?w1 = "demo_world\<lparr>sent := rqs, ticks := 1, self := demo_session\<rparr>"
  let ?r500 = "\<lparr> status_code = 500, resp_text = ''Internal Server Error'',
           json_body = Inr (JObj [(''message'', JStr ''Internal Server Error'')]),
           location = None \<rparr>"
  have a: "responses api_down_env (length (sent ?w1)) = Inr ?r500"
    by (simp add: rqs api_down_env_def login_script_def server_error_def)
  note T = request_raw_status [OF get_is_allowed rqs(2) a, of "''/v1/vehicle''" None JNull JNull None]
  have 1: "fst (request_raw api_down_env ''GET'' ''/v1/vehicle'' None JNull JNull None demo_world)
       = Inl (ToyotaApiError ''Request Failed.  500, Internal Server Error.'')"
    using T [THEN conjunct1] by (simp add: str_int_500)
  have 2: "length (sent (snd (request_raw api_down_env ''GET'' ''/v1/vehicle'' None JNull JNull None
                         demo_world))) = 6"
    using T [THEN conjunct2, THEN conjunct1] by (simp add: rqs)
  have "\<exists>rqs. length rqs = 5
      \<and> ensure_session demo_env demo_world
          = (Inr (), demo_world\<lparr>sent := rqs, ticks := 1, self := demo_session\<rparr>)"
    by (rule scripted_session [where api = "ok_json (JObj [(''payload'', JArr [])])"])
      (simp_all add: demo_env_def)
  then obtain rqs' where rqs': "length rqs' = 5"
    "ensure_session demo_env demo_world
          = (Inr (), demo_world\<lparr>sent := rqs', ticks := 1, self := demo_session\<rparr>)"
    by blast
  let ?w1' = "demo_world\<lparr>sent := rqs', ticks := 1, self := demo_session\<rparr>"
  let ?r200 = "\<lparr> status_code = 200, resp_text = ''(json)'',
               json_body = Inr (JObj [(''payload'', JArr [])]), location = None \<rparr>"
  have a': "responses demo_env (length (sent ?w1')) = Inr ?r200"
    by (simp add: rqs' demo_env_def login_script_def ok_json_def)
  have 3: "fst (request_raw demo_env ''GET'' ''/v1/vehicle'' None JNull JNull None demo_world)
       = Inr ?r200"
    using request_raw_status [OF get_is_allowed rqs'(2) a', of "''/v1/vehicle''" None JNull JNull None,
        THEN conjunct1]
    by simp
  have 4: "responses api_down_env 5 = server_error"
    by (simp add: api_down_env_def login_script_def)
  show ?thesis
    using rqs rqs' 1 2 3 4 by blast
qed


section \<open>The session invariant\<close>

lemma store_tokens_changes:
  "sent (snd (store_tokens E access_tokens w)) = sent w"
  by (simp add: store_tokens_frame)










lemma request_raw_ok:
  assumes "fst (request_raw E m ep vin body params hs w) = Inr resp"
  shows "fst (ensure_session E w) = Inr ()
       \<and> self (snd (request_raw E m ep vin body params hs w)) = self (snd (ensure_session E w))"
proof -
  from assms have m: "m \<in> set [''GET'', ''POST'', ''PUT'', ''DELETE'']"
    by (auto simp: request_raw_def split: if_splits)
  obtain r w1 where e: "ensure_session E w = (r, w1)" by (cases "ensure_session E w")
  show ?thesis
  proof (cases r)
    case (Inl err)
    with m e assms show ?thesis by (simp add: request_raw_def)
  next
    case (Inr u)
    with e have e': "ensure_session E w = (Inr (), w1)" by simp
    show ?thesis
      using request_raw_issued [OF m e', of ep vin body params hs] e'
      by (cases hs; auto simp: Let_def split: sum.splits)
  qed
qed



lemma request_json_world [simp]:
  "snd (request_json E m ep vin body params hs w) = snd (request_raw E m ep vin body params hs w)"
  by (simp add: request_json_def split: prod.splits sum.splits)

















section \<open>Runs of the session invariant\<close>







section \<open>The authorization step\<close>

text \<open>
  C6. The claim: a redirect whose \<^verbatim>\<open>Location\<close> lacks the authorization code makes the
  login fail with \<^verbatim>\<open>ToyotaLoginError\<close>. The code checks the status (line 76) but reads
  \<^verbatim>\<open>parse_qs(...)["code"]\<close> unguarded (line 78): against a server whose redirect is
  \<^verbatim>\<open>com.toyota.oneapp:/oauth2Callback?error=access_denied\<close> the login ends with
  \<^verbatim>\<open>KeyError('code')\<close> after four requests, the controller unchanged.
\<close>

theorem authorise_redirect_without_code:
  "responses denied_env 3 = redirect_to ''com.toyota.oneapp:/oauth2Callback?error=access_denied''
   \<and> parse_qs_location denied_env (Some ''com.toyota.oneapp:/oauth2Callback?error=access_denied'')
       = Inr [(''error'', [''access_denied''])]
   \<and> fst (update_token denied_env demo_world) = Inl (KeyError ''code'')
   \<and> length (sent (snd (update_token denied_env demo_world))) = 4
   \<and> self (snd (update_token denied_env demo_world)) = self demo_world"
proof -
  have "\<forall>k<3. responses denied_env k = login_script (JInt 3600) (ok_json (JObj [])) k"
    by (simp add: denied_env_def)
  from scripted_rounds [OF this] obtain rqs where
    rqs: "length rqs = 3" "challenge_loop denied_env 10 (JObj []) demo_world
               = (Inr (JObj [(''tokenId'', JStr ''tok1'')]), demo_world\<lparr>sent := rqs\<rparr>)"
    by blast
  let ?w1 = "demo_world\<lparr>sent := rqs\<rparr>"
  let ?rq = "authorize_request denied_env (self ?w1) (JStr ''tok1'')"
  have "authorise denied_env (JObj [(''tokenId'', JStr ''tok1'')]) ?w1
      = (Inl (KeyError ''code''), ?w1\<lparr>sent := sent ?w1 @ [?rq]\<rparr>)"
    by (rule authorise_no_code [where resp = "\<lparr> status_code = 302, resp_text = [],
            json_body = Inl ''JSONDecodeError'',
            location = Some ''com.toyota.oneapp:/oauth2Callback?error=access_denied'' \<rparr>"
          and q = "[(''error'', [''access_denied''])]"])
      (simp_all add: rqs denied_env_def redirect_to_def demo_env_def)
  with update_token_after_loop [OF rqs(2)] have
    "update_token denied_env demo_world = (Inl (KeyError ''code''), ?w1\<lparr>sent := sent ?w1 @ [?rq]\<rparr>)"
    by simp
  then show ?thesis
    by (simp add: rqs denied_env_def demo_env_def)
qed

end
